theory Spec2Isabelle
  imports Complex_Main "HOL-Library.Sublist" "HOL-Library.AList"
begin

section \<open>Python values shared by both scripts\<close>

text \<open>
  A Python \<open>str\<close> is modelled by \<^typ>\<open>string\<close>, holding the UTF-8 bytes of the text.
  The two string tests of the repository, \<open>startswith('cav')\<close> and \<open>"PO" in dataPath\<close>,
  look for ASCII literals; an ASCII byte never occurs inside the UTF-8 encoding of another
  code point, so both tests give the same answer on bytes as on code points.
  \<open>s.startswith(t)\<close> is \<^term>\<open>prefix t s\<close> and \<open>t in s\<close> is \<^term>\<open>sublist t s\<close>.
\<close>

datatype py_error =
    FileNotFoundError string
  | EmptyDataError string
  | UnicodeDecodeError string
  | ParserError string
  | KeyError string
  | AttributeError string
  | TypeError string
  | ValueError string

section \<open>rl_env/cavandlight_shixiong.py: the policy-mapping rule\<close>

text \<open>
  Line 191:
  \<^verbatim>\<open>POLICY_MAPPING_FN = ray.tune.function(lambda agent_id: 'cav' if agent_id.startswith('cav') else 'tl')\<close>
  \<open>ray.tune.function\<close> only wraps the lambda; the rule is the lambda.
\<close>

definition POLICY_MAPPING_FN :: "string \<Rightarrow> string" where
  "POLICY_MAPPING_FN agent_id = (if prefix ''cav'' agent_id then ''cav'' else ''tl'')"

section \<open>rl_env/cavandlight_shixiong.py: constants and vehicle population\<close>

definition HORIZON :: int where
  "HORIZON = 500"

definition N_ROLLOUTS :: int where
  "N_ROLLOUTS = 1"

text \<open>
  The grid geometry is six module-level integers (lines 32-37). They are gathered in a
  record so that the population can be stated for any geometry; \<open>module_geometry\<close> holds
  the values the module assigns.
\<close>

record geometry =
  num_cars_left :: int
  num_cars_right :: int
  num_cars_top :: int
  num_cars_bot :: int
  n_columns :: int
  n_rows :: int

definition module_geometry :: geometry where
  "module_geometry =
     \<lparr>num_cars_left = 1, num_cars_right = 1, num_cars_top = 1, num_cars_bot = 1,
      n_columns = 4, n_rows = 3\<rparr>"

definition tot_cars :: "geometry \<Rightarrow> int" where
  "tot_cars g =
     (num_cars_left g + num_cars_right g) * n_columns g
       + (num_cars_top g + num_cars_bot g) * n_rows g"

text \<open>
  \<open>VehicleParams\<close> belongs to the simulator library. The model keeps what the module hands
  to it: the keyword arguments of each \<open>add\<close> call, in call order. Controllers are kept by
  class name, float literals as written.
\<close>

record vehicle_type =
  veh_id :: string
  acceleration_controller :: "string option"
  routing_controller :: "string option"
  car_following_params :: "(string \<times> string) list"
  lane_change_params :: "(string \<times> string) list"
  num_vehicles :: int
  color :: string

type_synonym VehicleParams = "vehicle_type list"

definition VehicleParams_add :: "VehicleParams \<Rightarrow> vehicle_type \<Rightarrow> VehicleParams" where
  "VehicleParams_add vp v = vp @ [v]"

definition vehs :: "geometry \<Rightarrow> VehicleParams" where
  "vehs g =
     (let vehs = [];
          vehs = VehicleParams_add vehs
            \<lparr>veh_id = ''human'',
             acceleration_controller = None,
             routing_controller = Some ''GridRecycleRouter'',
             car_following_params = [(''min_gap'', ''2.5''), (''max_speed'', ''30''),
                                     (''decel'', ''3.5'')],
             lane_change_params = [],
             num_vehicles = tot_cars g - 2,
             color = ''white''\<rparr>;
          vehs = VehicleParams_add vehs
            \<lparr>veh_id = ''cav'',
             acceleration_controller = Some ''RLController'',
             routing_controller = Some ''ExpTravelTimeRouter'',
             car_following_params = [],
             lane_change_params = [(''lane_change_mode'', ''only_strategic_aggressive'')],
             num_vehicles = 2,
             color = ''red''\<rparr>
      in vehs)"

text \<open>The number of vehicles requested for the types that satisfy a test.\<close>

definition count_vehicles :: "VehicleParams \<Rightarrow> (vehicle_type \<Rightarrow> bool) \<Rightarrow> int" where
  "count_vehicles vp P = sum_list (map num_vehicles (filter P vp))"

definition is_learning :: "vehicle_type \<Rightarrow> bool" where
  "is_learning v = (acceleration_controller v = Some ''RLController'')"

text \<open>\<open>"grid_0_{}x{}_multiagent".format(n_rows, n_columns)\<close>, with Python's decimal \<open>str\<close>.\<close>

definition digit_char :: "nat \<Rightarrow> char" where
  "digit_char n = ''0123456789'' ! n"

fun str_nat :: "nat \<Rightarrow> string" where
  "str_nat n = (if n < 10 then [digit_char n] else str_nat (n div 10) @ [digit_char (n mod 10)])"

declare str_nat.simps [simp del]

definition str_int :: "int \<Rightarrow> string" where
  "str_int i = (if i < 0 then CHR ''-'' # str_nat (nat (- i)) else str_nat (nat i))"

definition exp_tag :: "geometry \<Rightarrow> string" where
  "exp_tag g = ''grid_0_'' @ str_int (n_rows g) @ ''x'' @ str_int (n_columns g) @ ''_multiagent''"

section \<open>rl_env/cavandlight_shixiong.py: the trainer configuration\<close>

text \<open>
  Configuration values are Python objects: numbers, strings, lists, tuples, dicts, classes
  (by name), gym spaces (of an open type \<open>'sp\<close>) and the mapping function. A dict is an
  association list in insertion order; assigning to a key that exists keeps its place.
\<close>

datatype 'sp pyval =
    PyNone
  | PyInt int
  | PyBool bool
  | PyFloat string
  | PyStr string
  | PyList "'sp pyval list"
  | PyTuple "'sp pyval list"
  | PyDict "(string \<times> 'sp pyval) list"
  | PyClass string
  | PySpace 'sp
  | PyFunction "string \<Rightarrow> string"

type_synonym 'sp dict = "(string \<times> 'sp pyval) list"

definition setitem :: "'sp dict \<Rightarrow> string \<Rightarrow> 'sp pyval \<Rightarrow> 'sp dict" where
  "setitem d k v = AList.update k v d"

definition dict_getitem :: "'sp dict \<Rightarrow> string \<Rightarrow> py_error + 'sp pyval" where
  "dict_getitem d k = (case map_of d k of None \<Rightarrow> Inl (KeyError k) | Some v \<Rightarrow> Inr v)"

definition dict_update :: "'sp dict \<Rightarrow> 'sp dict \<Rightarrow> 'sp dict" where
  "dict_update d other = foldl (\<lambda>acc (k, v). setitem acc k v) d other"

text \<open>\<open>d[k].update(other)\<close> and \<open>d[k][k2] = v\<close>: the inner dict is changed in place.\<close>

definition sub_update :: "'sp dict \<Rightarrow> string \<Rightarrow> 'sp dict \<Rightarrow> py_error + 'sp dict" where
  "sub_update d k other =
     (case dict_getitem d k of
        Inl e \<Rightarrow> Inl e
      | Inr (PyDict sub) \<Rightarrow> Inr (setitem d k (PyDict (dict_update sub other)))
      | Inr _ \<Rightarrow> Inl (AttributeError ''update''))"

definition sub_setitem :: "'sp dict \<Rightarrow> string \<Rightarrow> string \<Rightarrow> 'sp pyval \<Rightarrow> py_error + 'sp dict" where
  "sub_setitem d k k2 v =
     (case dict_getitem d k of
        Inl e \<Rightarrow> Inl e
      | Inr (PyDict sub) \<Rightarrow> Inr (setitem d k (PyDict (setitem sub k2 v)))
      | Inr _ \<Rightarrow> Inl (TypeError ''item assignment''))"

text \<open>
  What \<open>setup_exps\<close> obtains from the libraries: the trainer's default configuration, the
  serialised flow parameters, the registered environment name and the probe environment
  with its four spaces.
\<close>

record 'sp probe_env =
  observation_space_tl :: 'sp
  action_space_tl :: 'sp
  observation_space_av :: 'sp
  action_space_av :: 'sp

record 'sp externals =
  default_config :: "'sp dict"
  flow_json :: string
  registered_gym_name :: string
  test_env :: "'sp probe_env"

definition setup_exps :: "'sp externals \<Rightarrow> py_error + (string \<times> string \<times> 'sp dict)" where
  "setup_exps ext =
     (let alg_run = ''PPO'';
          config = default_config ext;
          config = setitem config ''num_gpus'' (PyInt 1);
          config = setitem config ''num_workers'' (PyInt 10);
          config = setitem config ''train_batch_size'' (PyInt (HORIZON * N_ROLLOUTS));
          config = setitem config ''gamma'' (PyFloat ''0.999'')
      in case sub_update config ''model'' [(''fcnet_hiddens'', PyList [PyInt 3, PyInt 3])] of
           Inl e \<Rightarrow> Inl e
         | Inr config \<Rightarrow>
      (let config = setitem config ''use_gae'' (PyBool True);
           config = setitem config ''lambda'' (PyFloat ''0.97'');
           config = setitem config ''kl_target'' (PyFloat ''0.02'');
           config = setitem config ''num_sgd_iter'' (PyInt 10);
           config = setitem config ''clip_actions'' (PyBool False);
           config = setitem config ''horizon'' (PyInt HORIZON)
       in case sub_setitem config ''env_config'' ''flow_params'' (PyStr (flow_json ext)) of
            Inl e \<Rightarrow> Inl e
          | Inr config \<Rightarrow>
         (case sub_setitem config ''env_config'' ''run'' (PyStr alg_run) of
            Inl e \<Rightarrow> Inl e
          | Inr config \<Rightarrow>
         (let obs_space_tl = observation_space_tl (test_env ext);
              act_space_tl = action_space_tl (test_env ext);
              obs_space_av = observation_space_av (test_env ext);
              act_space_av = action_space_av (test_env ext);
              POLICY_GRAPHS =
                PyDict [(''cav'', PyTuple [PyClass ''PPOTFPolicy'', PySpace obs_space_av,
                                           PySpace act_space_av, PyDict []]),
                        (''tl'', PyTuple [PyClass ''PPOTFPolicy'', PySpace obs_space_tl,
                                          PySpace act_space_tl, PyDict []])];
              POLICY_TO_TRAIN = PyList [PyStr ''cav'', PyStr ''tl'']
          in case sub_update config ''multiagent'' [(''policies'', POLICY_GRAPHS)] of
               Inl e \<Rightarrow> Inl e
             | Inr config \<Rightarrow>
            (case sub_update config ''multiagent''
                    [(''policy_mapping_fn'', PyFunction POLICY_MAPPING_FN)] of
               Inl e \<Rightarrow> Inl e
             | Inr config \<Rightarrow>
            (case sub_update config ''multiagent'' [(''policies_to_train'', POLICY_TO_TRAIN)] of
               Inl e \<Rightarrow> Inl e
             | Inr config \<Rightarrow> Inr (alg_run, registered_gym_name ext, config)))))))"

text \<open>
  Lines 202-218: the module calls \<open>setup_exps\<close> and hands one dict to \<open>run_experiments\<close>.
  \<open>experiments\<close> is that dict; \<open>{**config}\<close> is a fresh dict with the items of \<open>config\<close>.
\<close>

definition experiments :: "'sp externals \<Rightarrow> py_error + 'sp dict" where
  "experiments ext =
     (case setup_exps ext of
        Inl e \<Rightarrow> Inl e
      | Inr (alg_run, gym_name, config) \<Rightarrow>
          Inr [(exp_tag module_geometry,
                PyDict [(''run'', PyStr alg_run),
                        (''env'', PyStr gym_name),
                        (''config'', PyDict (dict_update [] config)),
                        (''checkpoint_freq'', PyInt 20),
                        (''checkpoint_at_end'', PyBool True),
                        (''max_failures'', PyInt 999),
                        (''stop'', PyDict [(''training_iteration'', PyInt 1000)])])])"

text \<open>\<open>has_dict d k\<close>: the dict \<open>d\<close> has the key \<open>k\<close>, bound to a dict.\<close>

definition has_dict :: "'sp dict \<Rightarrow> string \<Rightarrow> bool" where
  "has_dict d k = (case map_of d k of Some (PyDict sub) \<Rightarrow> True | _ \<Rightarrow> False)"

text \<open>
  An example of a default configuration: the three nested dicts that \<open>setup_exps\<close> reaches
  into, and one top-level entry that it overwrites.
\<close>

definition example_defaults :: "nat dict" where
  "example_defaults =
     [(''num_workers'', PyInt 2),
      (''model'', PyDict [(''fcnet_hiddens'', PyList [PyInt 256, PyInt 256])]),
      (''env_config'', PyDict []),
      (''multiagent'', PyDict [(''policies'', PyDict []), (''policy_mapping_fn'', PyNone),
                               (''policies_to_train'', PyNone)])]"

definition example_externals :: "nat externals" where
  "example_externals =
     \<lparr>default_config = example_defaults, flow_json = ''{}'',
      registered_gym_name = ''CustomSEUPressEnv-v0'',
      test_env = \<lparr>observation_space_tl = 1, action_space_tl = 2,
                  observation_space_av = 3, action_space_av = 4\<rparr>\<rparr>"

section \<open>plot_reward.py: the world the script acts on\<close>

text \<open>
  A \<open>pandas.DataFrame\<close> read from a log is its columns in file order, each a name and
  the column's cells. The cell type \<open>'v\<close> is left open: the script only hands cells to the
  plotting library. The columns of one frame share the frame's index, so the two series
  given to \<open>plt.plot\<close> always have the same length.

  Whether \<open>plt.plot\<close> can draw two series is decided by the plotting library, which
  raises on cells that it cannot convert. The library's answer is a parameter of every
  plotting function: \<open>plt_plot x y\<close> is \<open>None\<close> when the line is drawn and the exception
  otherwise.

  A figure keeps what the script puts into it: the line drawn by \<open>plt.plot(iteration, r)\<close>
  and the two axis labels.
\<close>

type_synonym 'v DataFrame = "(string \<times> 'v list) list"

record 'v figure =
  line_x :: "'v list"
  line_y :: "'v list"
  xlabel :: string
  ylabel :: string

type_synonym 'v plotter = "'v list \<Rightarrow> 'v list \<Rightarrow> py_error option"

text \<open>
  A stored file is a table that pandas parses to a frame, an image written by
  \<open>fig.savefig\<close>, an empty file, or any other content, kept with the exception that
  \<open>pd.read_csv\<close> raises on it.
\<close>

datatype 'v stored = Csv "'v DataFrame" | Png "'v figure" | Empty | Unreadable py_error

text \<open>
  The script's effects are reads of log files, \<open>plt.show()\<close> and \<open>fig.savefig\<close>. The world
  holds the files by path and the sequence of these operations, oldest first. An exception
  leaves the world as it was when it was raised, so an outcome carries the world in both
  cases.
\<close>

datatype event = ReadCsv string | Show | SaveFig string

record 'v world =
  files :: "string \<rightharpoonup> 'v stored"
  trace :: "event list"

datatype 'v outcome =
    is_Returned: Returned (world_of: "'v world")
  | Raised (raised: py_error) (world_of: "'v world")

definition and_then :: "'v outcome \<Rightarrow> ('v world \<Rightarrow> 'v outcome) \<Rightarrow> 'v outcome" where
  "and_then r k = (case r of Returned w \<Rightarrow> k w | Raised e w \<Rightarrow> Raised e w)"

text \<open>
  \<open>pd.read_csv(p)\<close>: a missing file raises \<open>FileNotFoundError\<close>, an empty file
  \<open>EmptyDataError\<close>, the bytes of an image \<open>UnicodeDecodeError\<close>, and other content that is
  not a table the exception kept with it.
\<close>

definition read_csv :: "'v world \<Rightarrow> string \<Rightarrow> (py_error + 'v DataFrame) \<times> 'v world" where
  "read_csv w p =
     (let w' = w\<lparr>trace := trace w @ [ReadCsv p]\<rparr>
      in case files w p of
           None \<Rightarrow> (Inl (FileNotFoundError p), w')
         | Some (Csv df) \<Rightarrow> (Inr df, w')
         | Some (Png fig) \<Rightarrow> (Inl (UnicodeDecodeError p), w')
         | Some Empty \<Rightarrow> (Inl (EmptyDataError p), w')
         | Some (Unreadable e) \<Rightarrow> (Inl e, w'))"

text \<open>\<open>df[c]\<close>: a column that the frame does not have raises \<open>KeyError\<close>.\<close>

definition getitem :: "'v DataFrame \<Rightarrow> string \<Rightarrow> py_error + 'v list" where
  "getitem df c = (case map_of df c of None \<Rightarrow> Inl (KeyError c) | Some col \<Rightarrow> Inr col)"

text \<open>
  \<open>plt.show()\<close> and \<open>fig.savefig(p)\<close>; saving replaces a file of the same name. Both are
  reached only after the log was read from the directory that receives the image and after
  \<open>plt.plot\<close> drew the line.
\<close>

definition plt_show :: "'v world \<Rightarrow> 'v world" where
  "plt_show w = w\<lparr>trace := trace w @ [Show]\<rparr>"

definition savefig :: "'v world \<Rightarrow> 'v figure \<Rightarrow> string \<Rightarrow> 'v world" where
  "savefig w fig p = w\<lparr>files := (files w)(p \<mapsto> Png fig), trace := trace w @ [SaveFig p]\<rparr>"

section \<open>plot_reward.py: the plotting functions\<close>

definition EXP_TAG :: string where
  "EXP_TAG = ''fixed_time_ppo''"

text \<open>
  The source repeats one block four times (lines 9-23, 31-45, 47-61 and 63-77): select the
  max, min and mean columns in that order, then \<open>training_iteration\<close>, draw the mean
  against the iteration with \<open>plt.plot\<close>, label the axes, show, and save under
  \<open>first_PATH + '/' + scope + EXP_TAG + '.png'\<close>. The blocks differ in the three column
  names, the y label and the scope prefix of the file name. An exception of \<open>plt.plot\<close>
  leaves the block before \<open>plt.show()\<close> and \<open>fig.savefig\<close>. \<open>plt.grid\<close> and \<open>plt.legend\<close>
  change neither the files nor the columns read.
\<close>

definition plot_block ::
  "'v plotter \<Rightarrow> 'v world \<Rightarrow> 'v DataFrame \<Rightarrow> string \<Rightarrow> string \<Rightarrow> string \<Rightarrow> string
     \<Rightarrow> string \<Rightarrow> string \<Rightarrow> 'v outcome" where
  "plot_block plt_plot w df first_PATH c_max c_min c_mean ylab scope =
     (case getitem df c_max of Inl e \<Rightarrow> Raised e w | Inr max_r \<Rightarrow>
      case getitem df c_min of Inl e \<Rightarrow> Raised e w | Inr min_r \<Rightarrow>
      case getitem df c_mean of Inl e \<Rightarrow> Raised e w | Inr r \<Rightarrow>
      case getitem df ''training_iteration'' of Inl e \<Rightarrow> Raised e w | Inr iteration \<Rightarrow>
      case plt_plot iteration r of Some e \<Rightarrow> Raised e w | None \<Rightarrow>
        (let fig = \<lparr>line_x = iteration, line_y = r,
                    xlabel = ''number of iterations'', ylabel = ylab\<rparr>
         in Returned (savefig (plt_show w) fig (first_PATH @ ''/'' @ scope @ EXP_TAG @ ''.png''))))"

definition PlotbothRew_Inter :: "'v plotter \<Rightarrow> 'v world \<Rightarrow> string \<Rightarrow> 'v outcome" where
  "PlotbothRew_Inter plt_plot w PATH =
     (let first_PATH = PATH;
          FILE_PATH = first_PATH @ ''/'' @ ''progress.csv''
      in case read_csv w FILE_PATH of
           (Inl e, w1) \<Rightarrow> Raised e w1
         | (Inr df, w1) \<Rightarrow>
             plot_block plt_plot w1 df first_PATH
               ''episode_reward_max'' ''episode_reward_min'' ''episode_reward_mean''
               ''reward'' ''all_'')"

definition PlotCav_LigthtRew_Inter :: "'v plotter \<Rightarrow> 'v world \<Rightarrow> string \<Rightarrow> 'v outcome" where
  "PlotCav_LigthtRew_Inter plt_plot w PATH =
     (let first_PATH = PATH;
          FILE_PATH = first_PATH @ ''/'' @ ''progress.csv''
      in case read_csv w FILE_PATH of
           (Inl e, w1) \<Rightarrow> Raised e w1
         | (Inr df, w1) \<Rightarrow>
             and_then
               (plot_block plt_plot w1 df first_PATH
                  ''episode_reward_max'' ''episode_reward_min'' ''episode_reward_mean''
                  ''reward'' ''all_'')
               (\<lambda>w2. and_then
                  (plot_block plt_plot w2 df first_PATH
                     ''policy_reward_max/cav'' ''policy_reward_min/cav''
                     ''policy_reward_mean/cav'' ''icv_reward'' ''icv_'')
                  (\<lambda>w3. plot_block plt_plot w3 df first_PATH
                     ''policy_reward_max/tl'' ''policy_reward_min/tl''
                     ''policy_reward_mean/tl'' ''tl_reward'' ''tl_'')))"

definition data_prefix :: string where
  "data_prefix = ''/home/g/software/pycharm/projects/flow-SEU/workplace/final/''"

definition PlotAll :: "'v plotter \<Rightarrow> 'v world \<Rightarrow> string \<Rightarrow> 'v outcome" where
  "PlotAll plt_plot w PATH =
     (let dataPath = data_prefix @ PATH
      in if sublist ''PO'' dataPath
         then and_then (PlotbothRew_Inter plt_plot w dataPath)
                (\<lambda>w1. PlotCav_LigthtRew_Inter plt_plot w1 dataPath)
         else PlotbothRew_Inter plt_plot w dataPath)"

text \<open>
  The directory names of lines 94-96 contain the two CJK characters U+8DEF U+7F51 after the
  grid size; \<open>luwang\<close> is their UTF-8 encoding.
\<close>

definition luwang :: string where
  "luwang = [CHR 0xE8, CHR 0xB7, CHR 0xAF, CHR 0xE7, CHR 0xBD, CHR 0x91]"

definition PATHS :: "string list" where
  "PATHS =
     [''1*1'' @ luwang @ ''/Co_PPO'', ''1*1'' @ luwang @ ''/fixedtime_cav'',
      ''1*1'' @ luwang @ ''/In_PPO'', ''1*1'' @ luwang @ ''/RL_HV'',
      ''1*6'' @ luwang @ ''/Co_PPO'', ''1*6'' @ luwang @ ''/fixedtime_cav'',
      ''1*6'' @ luwang @ ''/In_PPO'', ''1*6'' @ luwang @ ''/RL_HV'',
      ''3*4'' @ luwang @ ''/Co_PPO'', ''3*4'' @ luwang @ ''/fixedtime_cav'',
      ''3*4'' @ luwang @ ''/In_PPO'', ''3*4'' @ luwang @ ''/RL_HV'']"

text \<open>Lines 97-98: \<open>for PATH in PATHS: PlotAll(PATH)\<close>, with nothing catching an exception.\<close>

fun for_PATH_in :: "'v plotter \<Rightarrow> 'v world \<Rightarrow> string list \<Rightarrow> 'v outcome" where
  "for_PATH_in plt_plot w [] = Returned w"
| "for_PATH_in plt_plot w (PATH # rest) =
     and_then (PlotAll plt_plot w PATH) (\<lambda>w'. for_PATH_in plt_plot w' rest)"

definition plot_reward_script :: "'v plotter \<Rightarrow> 'v world \<Rightarrow> 'v outcome" where
  "plot_reward_script plt_plot w = for_PATH_in plt_plot w PATHS"

section \<open>plot_reward.py: vocabulary for the properties\<close>

text \<open>The column names the blocks select, in the order they are selected.\<close>

definition episode_columns :: "string list" where
  "episode_columns =
     [''episode_reward_max'', ''episode_reward_min'', ''episode_reward_mean'',
      ''training_iteration'']"

definition cav_columns :: "string list" where
  "cav_columns =
     [''policy_reward_max/cav'', ''policy_reward_min/cav'', ''policy_reward_mean/cav'',
      ''training_iteration'']"

definition tl_columns :: "string list" where
  "tl_columns =
     [''policy_reward_max/tl'', ''policy_reward_min/tl'', ''policy_reward_mean/tl'',
      ''training_iteration'']"

definition first_missing :: "'v DataFrame \<Rightarrow> string list \<Rightarrow> string option" where
  "first_missing df cs = find (\<lambda>c. map_of df c = None) cs"

definition has_columns :: "'v DataFrame \<Rightarrow> string list \<Rightarrow> bool" where
  "has_columns df cs = (first_missing df cs = None)"

text \<open>The exception of \<open>pd.read_csv\<close> on stored content at a path, if it raises.\<close>

definition read_error :: "string \<Rightarrow> 'v stored \<Rightarrow> py_error option" where
  "read_error p s =
     (case s of
        Csv df \<Rightarrow> None
      | Png fig \<Rightarrow> Some (UnicodeDecodeError p)
      | Empty \<Rightarrow> Some (EmptyDataError p)
      | Unreadable e \<Rightarrow> Some e)"

text \<open>The log and the images of a directory, by absolute path.\<close>

definition log_file :: "string \<Rightarrow> string" where
  "log_file PATH = data_prefix @ PATH @ ''/progress.csv''"

definition image_file :: "string \<Rightarrow> string \<Rightarrow> string" where
  "image_file PATH scope = data_prefix @ PATH @ ''/'' @ scope @ ''fixed_time_ppo.png''"

text \<open>
  The answer of \<open>plt.plot\<close> to the series a block draws from a frame that has the columns,
  and the blocks of one \<open>PlotAll\<close> call all being drawn.
\<close>

definition plot_error :: "'v plotter \<Rightarrow> 'v DataFrame \<Rightarrow> string \<Rightarrow> py_error option" where
  "plot_error plt_plot df c_mean =
     plt_plot (the (map_of df ''training_iteration'')) (the (map_of df c_mean))"

definition plots_drawn :: "'v plotter \<Rightarrow> 'v DataFrame \<Rightarrow> string \<Rightarrow> bool" where
  "plots_drawn plt_plot df PATH =
     (plot_error plt_plot df ''episode_reward_mean'' = None
      \<and> (sublist ''PO'' (data_prefix @ PATH) \<longrightarrow>
           plot_error plt_plot df ''policy_reward_mean/cav'' = None
           \<and> plot_error plt_plot df ''policy_reward_mean/tl'' = None))"

text \<open>The figure a block draws from a frame that has the columns.\<close>

definition reward_figure :: "'v DataFrame \<Rightarrow> string \<Rightarrow> string \<Rightarrow> 'v figure" where
  "reward_figure df c_mean ylab =
     \<lparr>line_x = the (map_of df ''training_iteration''), line_y = the (map_of df c_mean),
      xlabel = ''number of iterations'', ylabel = ylab\<rparr>"

text \<open>
  The world after the read of a directory's log, and the world after a block that was
  drawn, shown and saved.
\<close>

definition after_read :: "'v world \<Rightarrow> string \<Rightarrow> 'v world" where
  "after_read w PATH = w\<lparr>trace := trace w @ [ReadCsv (log_file PATH)]\<rparr>"

definition after_block ::
  "'v world \<Rightarrow> 'v DataFrame \<Rightarrow> string \<Rightarrow> string \<Rightarrow> string \<Rightarrow> string \<Rightarrow> 'v world" where
  "after_block w df PATH c_mean ylab scope =
     w\<lparr>files := (files w)(image_file PATH scope \<mapsto> Png (reward_figure df c_mean ylab)),
       trace := trace w @ [Show, SaveFig (image_file PATH scope)]\<rparr>"

text \<open>The paths saved by a sequence of operations, and the operations a call added.\<close>

fun saved :: "event list \<Rightarrow> string list" where
  "saved [] = []"
| "saved (SaveFig p # evs) = p # saved evs"
| "saved (ReadCsv p # evs) = saved evs"
| "saved (Show # evs) = saved evs"

definition new_events :: "'v world \<Rightarrow> 'v world \<Rightarrow> event list" where
  "new_events w w' = drop (length (trace w)) (trace w')"

text \<open>The operations of one \<open>PlotAll\<close> call that runs to its end.\<close>

definition both_events :: "string \<Rightarrow> event list" where
  "both_events PATH = [ReadCsv (log_file PATH), Show, SaveFig (image_file PATH ''all_'')]"

definition cav_light_events :: "string \<Rightarrow> event list" where
  "cav_light_events PATH =
     [ReadCsv (log_file PATH), Show, SaveFig (image_file PATH ''all_''),
      Show, SaveFig (image_file PATH ''icv_''), Show, SaveFig (image_file PATH ''tl_'')]"



text \<open>The columns one \<open>PlotAll\<close> call selects, in order.\<close>

definition consumed_columns :: "string \<Rightarrow> string list" where
  "consumed_columns PATH =
     (if sublist ''PO'' (data_prefix @ PATH)
      then episode_columns @ episode_columns @ cav_columns @ tl_columns
      else episode_columns)"

section \<open>plot_reward.py: example worlds\<close>

text \<open>
  The log of the end-to-end scenario: four columns and three rows, iterations 1, 2, 3 and
  means 0.1, 0.2, 0.3; the minimum and maximum columns are parameters. Cells are written
  as rationals: no property below computes with them.
\<close>

definition scenario_frame :: "rat list \<Rightarrow> rat list \<Rightarrow> rat DataFrame" where
  "scenario_frame mins maxs =
     [(''training_iteration'', [1, 2, 3]),
      (''episode_reward_mean'', [1 / 10, 2 / 10, 3 / 10]),
      (''episode_reward_min'', mins),
      (''episode_reward_max'', maxs)]"

text \<open>A log of a multi-policy run: the episode columns and the columns of both roles.\<close>

definition full_frame :: "rat DataFrame" where
  "full_frame =
     scenario_frame [0, 0, 0] [1, 1, 1] @
     [(''policy_reward_mean/cav'', [1 / 20, 1 / 10, 3 / 20]),
      (''policy_reward_min/cav'', [0, 0, 0]),
      (''policy_reward_max/cav'', [1, 1, 1]),
      (''policy_reward_mean/tl'', [1 / 20, 1 / 10, 3 / 20]),
      (''policy_reward_min/tl'', [0, 0, 0]),
      (''policy_reward_max/tl'', [1, 1, 1])]"

text \<open>A plotting library that draws every pair of series.\<close>

definition draws_all :: "rat plotter" where
  "draws_all x y = None"

text \<open>
  Cells that are numbers, text or gaps, a plotting library that draws numbers and raises
  \<open>TypeError\<close> on anything else, and a world whose only file is a log, in a directory without
  the marker, that has the four episode columns with text and a gap among the means.
\<close>

datatype cell = Number rat | Text string | Gap

definition draws_numbers :: "cell plotter" where
  "draws_numbers x y =
     (if list_all (\<lambda>c. case c of Number n \<Rightarrow> True | _ \<Rightarrow> False) (x @ y) then None
      else Some (TypeError ''plot''))"

definition text_gap_frame :: "cell DataFrame" where
  "text_gap_frame =
     [(''training_iteration'', [Number 1, Number 2, Number 3]),
      (''episode_reward_mean'', [Text ''x'', Gap, Number 1]),
      (''episode_reward_min'', [Number 0, Number 0, Number 0]),
      (''episode_reward_max'', [Number 1, Number 1, Number 1])]"

definition text_gap_world :: "cell world" where
  "text_gap_world =
     \<lparr>files = [log_file (''1*1'' @ luwang @ ''/RL_HV'') \<mapsto> Csv text_gap_frame], trace = []\<rparr>"

text \<open>
  Worlds with an empty trace: one without files, one where every directory holds the
  full log, one whose single file is the scenario's log in a directory without the marker,
  and one where only the first directory of \<open>PATHS\<close> holds a log.
\<close>

definition empty_world :: "rat world" where
  "empty_world = \<lparr>files = Map.empty, trace = []\<rparr>"

definition all_logs_world :: "rat world" where
  "all_logs_world =
     \<lparr>files = (\<lambda>p. if suffix ''/progress.csv'' p then Some (Csv full_frame) else None),
      trace = []\<rparr>"

definition scenario_world :: "rat world" where
  "scenario_world =
     \<lparr>files = [log_file (''1*1'' @ luwang @ ''/RL_HV'') \<mapsto>
                 Csv (scenario_frame [0, 0, 0] [1, 1, 1])],
      trace = []\<rparr>"

definition first_log_world :: "rat world" where
  "first_log_world =
     \<lparr>files = [log_file (''1*1'' @ luwang @ ''/Co_PPO'') \<mapsto> Csv full_frame], trace = []\<rparr>"

section \<open>Properties of the policy-mapping rule\<close>

text \<open>
  Claim C1. For every agent identifier string the rule answers one of the two roles:
  \<open>'cav'\<close> exactly when the identifier starts with the literal \<open>cav\<close>, and \<open>'tl'\<close> exactly
  when it does not. The rule has no third answer and no error branch: an identifier that
  matches no role prefix is routed to \<open>'tl'\<close>.
\<close>

theorem POLICY_MAPPING_FN_cav_iff_prefix:
  "(POLICY_MAPPING_FN agent_id = ''cav'' \<longleftrightarrow> prefix ''cav'' agent_id)
   \<and> (POLICY_MAPPING_FN agent_id = ''tl'' \<longleftrightarrow> \<not> prefix ''cav'' agent_id)
   \<and> POLICY_MAPPING_FN agent_id \<in> {''cav'', ''tl''}"
  by (simp add: POLICY_MAPPING_FN_def)

theorem POLICY_MAPPING_FN_cav_iff_prefix_witness:
  "POLICY_MAPPING_FN ''cav_3'' = ''cav'' \<and> POLICY_MAPPING_FN ''tl_main'' = ''tl''
   \<and> POLICY_MAPPING_FN ''human_0'' = ''tl'' \<and> POLICY_MAPPING_FN ''Cav_1'' = ''tl''"
  using POLICY_MAPPING_FN_cav_iff_prefix [of "''cav_3''"]
    POLICY_MAPPING_FN_cav_iff_prefix [of "''tl_main''"]
    POLICY_MAPPING_FN_cav_iff_prefix [of "''human_0''"]
    POLICY_MAPPING_FN_cav_iff_prefix [of "''Cav_1''"]
  by simp

section \<open>Properties of the vehicle population\<close>

text \<open>
  Claim C3. For every grid geometry, the vehicles requested for the \<open>human\<close> type and for the
  \<open>cav\<close> type add up to \<open>tot_cars\<close>, which is
  \<open>(num_cars_left + num_cars_right) * n_columns + (num_cars_top + num_cars_bot) * n_rows\<close>.
  The \<open>cav\<close> type is the only learning type (the one driven by \<open>RLController\<close>) and its
  count is 2 whatever the geometry; the \<open>human\<close> type is the only other one and receives
  \<open>tot_cars - 2\<close>. The counts are the \<open>num_vehicles\<close> arguments the module passes.
\<close>

theorem vehs_population:
  "count_vehicles (vehs g) (\<lambda>v. veh_id v = ''human'')
     + count_vehicles (vehs g) (\<lambda>v. veh_id v = ''cav'') = tot_cars g
   \<and> tot_cars g = (num_cars_left g + num_cars_right g) * n_columns g
                    + (num_cars_top g + num_cars_bot g) * n_rows g
   \<and> count_vehicles (vehs g) (\<lambda>v. veh_id v = ''cav'') = 2
   \<and> count_vehicles (vehs g) is_learning = 2
   \<and> count_vehicles (vehs g) (\<lambda>v. \<not> is_learning v) = tot_cars g - 2
   \<and> map veh_id (filter is_learning (vehs g)) = [''cav'']
   \<and> map veh_id (filter (\<lambda>v. \<not> is_learning v) (vehs g)) = [''human'']"
  by (simp add: vehs_def VehicleParams_add_def count_vehicles_def is_learning_def tot_cars_def)

theorem vehs_population_witness:
  "count_vehicles (vehs module_geometry) (\<lambda>v. veh_id v = ''human'') = 12
   \<and> count_vehicles (vehs module_geometry) (\<lambda>v. veh_id v = ''cav'') = 2
   \<and> tot_cars module_geometry = 14"
proof -
  have t: "tot_cars module_geometry = 14"
    by (simp add: tot_cars_def module_geometry_def)
  show ?thesis using vehs_population [of module_geometry] t by simp
qed

section \<open>Properties of the trainer configuration\<close>

lemma map_of_setitem: "map_of (setitem d k v) = (map_of d)(k \<mapsto> v)"
  by (simp add: setitem_def update_conv')

lemma has_dict_iff: "has_dict d k \<longleftrightarrow> (\<exists>sub. map_of d k = Some (PyDict sub))"
  by (auto simp: has_dict_def split: option.splits pyval.splits)

lemma has_dict_setitem:
  "has_dict (setitem d k v) k' \<longleftrightarrow> (if k' = k then (\<exists>sub. v = PyDict sub) else has_dict d k')"
  by (auto simp: has_dict_iff map_of_setitem)

lemma sub_update_Inr:
  assumes "map_of d k = Some (PyDict sub)"
  shows "sub_update d k other = Inr (setitem d k (PyDict (dict_update sub other)))"
  using assms by (simp add: sub_update_def dict_getitem_def)

lemma sub_setitem_Inr:
  assumes "map_of d k = Some (PyDict sub)"
  shows "sub_setitem d k k2 v = Inr (setitem d k (PyDict (setitem sub k2 v)))"
  using assms by (simp add: sub_setitem_def dict_getitem_def)

lemma sub_update_Inl:
  assumes "\<not> has_dict d k"
  shows "\<exists>e. sub_update d k other = Inl e"
  using assms
  by (auto simp: sub_update_def dict_getitem_def has_dict_def split: option.splits pyval.splits)

lemma sub_setitem_Inl:
  assumes "\<not> has_dict d k"
  shows "\<exists>e. sub_setitem d k k2 v = Inl e"
  using assms
  by (auto simp: sub_setitem_def dict_getitem_def has_dict_def split: option.splits pyval.splits)

lemma setup_exps_Inr:
  assumes "map_of (default_config ext) ''model'' = Some (PyDict model)"
    and "map_of (default_config ext) ''env_config'' = Some (PyDict env_config)"
    and "map_of (default_config ext) ''multiagent'' = Some (PyDict multiagent)"
  shows "\<exists>config.
     setup_exps ext = Inr (''PPO'', registered_gym_name ext, config)
     \<and> map_of config ''multiagent'' =
         Some (PyDict (setitem (setitem (setitem multiagent
           ''policies''
             (PyDict [(''cav'', PyTuple [PyClass ''PPOTFPolicy'',
                                         PySpace (observation_space_av (test_env ext)),
                                         PySpace (action_space_av (test_env ext)), PyDict []]),
                      (''tl'', PyTuple [PyClass ''PPOTFPolicy'',
                                        PySpace (observation_space_tl (test_env ext)),
                                        PySpace (action_space_tl (test_env ext)), PyDict []])]))
           ''policy_mapping_fn'' (PyFunction POLICY_MAPPING_FN))
           ''policies_to_train'' (PyList [PyStr ''cav'', PyStr ''tl''])))"
  using assms
  by (simp add: setup_exps_def Let_def map_of_setitem sub_update_Inr sub_setitem_Inr dict_update_def)

lemma setup_exps_Inl_model:
  assumes "\<not> has_dict (default_config ext) ''model''"
  shows "\<exists>e. setup_exps ext = Inl e"
proof -
  let ?c = "setitem (setitem (setitem (setitem (default_config ext) ''num_gpus'' (PyInt 1))
      ''num_workers'' (PyInt 10)) ''train_batch_size'' (PyInt (HORIZON * N_ROLLOUTS)))
      ''gamma'' (PyFloat ''0.999'')"
  have "\<not> has_dict ?c ''model''" using assms by (simp add: has_dict_setitem)
  from sub_update_Inl [OF this] obtain e where
    "sub_update ?c ''model'' [(''fcnet_hiddens'', PyList [PyInt 3, PyInt 3])] = Inl e" by blast
  then show ?thesis by (simp add: setup_exps_def Let_def)
qed

lemma setup_exps_Inl_env_config:
  assumes "has_dict (default_config ext) ''model''"
    and "\<not> has_dict (default_config ext) ''env_config''"
  shows "\<exists>e. setup_exps ext = Inl e"
proof -
  from assms(1) obtain model where m: "map_of (default_config ext) ''model'' = Some (PyDict model)"
    by (auto simp: has_dict_iff)
  let ?c1 = "setitem (setitem (setitem (setitem (default_config ext) ''num_gpus'' (PyInt 1))
      ''num_workers'' (PyInt 10)) ''train_batch_size'' (PyInt (HORIZON * N_ROLLOUTS)))
      ''gamma'' (PyFloat ''0.999'')"
  have m1: "map_of ?c1 ''model'' = Some (PyDict model)" using m by (simp add: map_of_setitem)
  let ?c2 = "setitem ?c1 ''model'' (PyDict (dict_update model [(''fcnet_hiddens'', PyList [PyInt 3, PyInt 3])]))"
  let ?c3 = "setitem (setitem (setitem (setitem (setitem (setitem ?c2 ''use_gae'' (PyBool True))
      ''lambda'' (PyFloat ''0.97'')) ''kl_target'' (PyFloat ''0.02'')) ''num_sgd_iter'' (PyInt 10))
      ''clip_actions'' (PyBool False)) ''horizon'' (PyInt HORIZON)"
  have "\<not> has_dict ?c3 ''env_config''" using assms(2) by (simp add: has_dict_setitem)
  from sub_setitem_Inl [OF this] obtain e where
    "sub_setitem ?c3 ''env_config'' ''flow_params'' (PyStr (flow_json ext)) = Inl e" by blast
  then show ?thesis using sub_update_Inr [OF m1] by (simp add: setup_exps_def Let_def)
qed

lemma setup_exps_Inl_multiagent:
  assumes "has_dict (default_config ext) ''model''"
    and "has_dict (default_config ext) ''env_config''"
    and "\<not> has_dict (default_config ext) ''multiagent''"
  shows "\<exists>e. setup_exps ext = Inl e"
proof -
  from assms(1) obtain model where m: "map_of (default_config ext) ''model'' = Some (PyDict model)"
    by (auto simp: has_dict_iff)
  from assms(2) obtain env where e: "map_of (default_config ext) ''env_config'' = Some (PyDict env)"
    by (auto simp: has_dict_iff)
  from assms(3) have ma: "\<And>d. map_of (default_config ext) ''multiagent'' \<noteq> Some (PyDict d)"
    by (auto simp: has_dict_iff)
  show ?thesis
    using m e ma
    by (simp add: setup_exps_def Let_def map_of_setitem sub_update_Inr sub_setitem_Inr)
       (auto simp: sub_update_def dict_getitem_def map_of_setitem split: option.splits pyval.splits)
qed

lemma setup_exps_returns_iff:
  "(\<exists>r. setup_exps ext = Inr r) \<longleftrightarrow>
     has_dict (default_config ext) ''model'' \<and> has_dict (default_config ext) ''env_config''
     \<and> has_dict (default_config ext) ''multiagent''"
proof
  assume "\<exists>r. setup_exps ext = Inr r"
  then show "has_dict (default_config ext) ''model'' \<and> has_dict (default_config ext) ''env_config''
     \<and> has_dict (default_config ext) ''multiagent''"
    using setup_exps_Inl_model [of ext] setup_exps_Inl_env_config [of ext]
      setup_exps_Inl_multiagent [of ext]
    by (metis Inl_Inr_False)
next
  assume "has_dict (default_config ext) ''model'' \<and> has_dict (default_config ext) ''env_config''
     \<and> has_dict (default_config ext) ''multiagent''"
  then show "\<exists>r. setup_exps ext = Inr r"
    using setup_exps_Inr [of ext] unfolding has_dict_iff by blast
qed

lemma exp_tag_module: "exp_tag module_geometry = ''grid_0_3x4_multiagent''"
  by (simp add: exp_tag_def module_geometry_def str_int_def str_nat.simps digit_char_def)

lemma example_has_dicts:
  "has_dict (default_config example_externals) ''model''"
  "has_dict (default_config example_externals) ''env_config''"
  "has_dict (default_config example_externals) ''multiagent''"
  by (simp_all add: example_externals_def example_defaults_def has_dict_def)

text \<open>
  Claim C7. Whenever \<open>setup_exps\<close> returns, the \<open>multiagent\<close> entry of its configuration binds
  \<open>policies\<close> to a dict of exactly two entries: \<open>cav\<close>, built on the probe environment's
  \<open>observation_space_av\<close> and \<open>action_space_av\<close>, and \<open>tl\<close>, built on its
  \<open>observation_space_tl\<close> and \<open>action_space_tl\<close>; \<open>policies_to_train\<close> is the list of these
  two keys and nothing else, and the mapping rule is registered beside them. \<open>setup_exps\<close>
  returns exactly when the trainer's default configuration has the three nested dicts
  \<open>model\<close>, \<open>env_config\<close> and \<open>multiagent\<close> it reaches into.
\<close>

theorem setup_exps_policies:
  "(setup_exps ext = Inr (alg_run, gym_name, config) \<longrightarrow>
      (\<exists>multiagent.
         map_of config ''multiagent'' = Some (PyDict multiagent)
         \<and> map_of multiagent ''policies'' =
             Some (PyDict
               [(''cav'', PyTuple [PyClass ''PPOTFPolicy'',
                                   PySpace (observation_space_av (test_env ext)),
                                   PySpace (action_space_av (test_env ext)), PyDict []]),
                (''tl'', PyTuple [PyClass ''PPOTFPolicy'',
                                  PySpace (observation_space_tl (test_env ext)),
                                  PySpace (action_space_tl (test_env ext)), PyDict []])])
         \<and> map_of multiagent ''policies_to_train'' = Some (PyList [PyStr ''cav'', PyStr ''tl''])
         \<and> map_of multiagent ''policy_mapping_fn'' = Some (PyFunction POLICY_MAPPING_FN)))
   \<and> ((\<exists>r. setup_exps ext = Inr r) \<longleftrightarrow>
        has_dict (default_config ext) ''model'' \<and> has_dict (default_config ext) ''env_config''
        \<and> has_dict (default_config ext) ''multiagent'')"
proof (intro conjI impI)
  assume ok: "setup_exps ext = Inr (alg_run, gym_name, config)"
  then have "\<exists>r. setup_exps ext = Inr r" by blast
  then obtain model env_config multiagent where
    "map_of (default_config ext) ''model'' = Some (PyDict model)"
    "map_of (default_config ext) ''env_config'' = Some (PyDict env_config)"
    "map_of (default_config ext) ''multiagent'' = Some (PyDict multiagent)"
    unfolding setup_exps_returns_iff has_dict_iff by blast
  from setup_exps_Inr [OF this] ok
  show "\<exists>multiagent.
         map_of config ''multiagent'' = Some (PyDict multiagent)
         \<and> map_of multiagent ''policies'' =
             Some (PyDict
               [(''cav'', PyTuple [PyClass ''PPOTFPolicy'',
                                   PySpace (observation_space_av (test_env ext)),
                                   PySpace (action_space_av (test_env ext)), PyDict []]),
                (''tl'', PyTuple [PyClass ''PPOTFPolicy'',
                                  PySpace (observation_space_tl (test_env ext)),
                                  PySpace (action_space_tl (test_env ext)), PyDict []])])
         \<and> map_of multiagent ''policies_to_train'' = Some (PyList [PyStr ''cav'', PyStr ''tl''])
         \<and> map_of multiagent ''policy_mapping_fn'' = Some (PyFunction POLICY_MAPPING_FN)"
    by (auto simp: map_of_setitem)
next
  show "(\<exists>r. setup_exps ext = Inr r) \<longleftrightarrow>
        has_dict (default_config ext) ''model'' \<and> has_dict (default_config ext) ''env_config''
        \<and> has_dict (default_config ext) ''multiagent''"
    by (rule setup_exps_returns_iff)
qed

theorem setup_exps_policies_witness:
  "\<exists>config multiagent.
     setup_exps example_externals = Inr (''PPO'', ''CustomSEUPressEnv-v0'', config)
     \<and> map_of config ''multiagent'' = Some (PyDict multiagent)
     \<and> map_of multiagent ''policies'' =
         Some (PyDict [(''cav'', PyTuple [PyClass ''PPOTFPolicy'', PySpace 3, PySpace 4, PyDict []]),
                       (''tl'', PyTuple [PyClass ''PPOTFPolicy'', PySpace 1, PySpace 2, PyDict []])])
     \<and> map_of multiagent ''policies_to_train'' = Some (PyList [PyStr ''cav'', PyStr ''tl''])"
proof -
  obtain model env_config multiagent where d:
    "map_of (default_config example_externals) ''model'' = Some (PyDict model)"
    "map_of (default_config example_externals) ''env_config'' = Some (PyDict env_config)"
    "map_of (default_config example_externals) ''multiagent'' = Some (PyDict multiagent)"
    using example_has_dicts unfolding has_dict_iff by blast
  from setup_exps_Inr [OF d] obtain config where
    c: "setup_exps example_externals = Inr (''PPO'', registered_gym_name example_externals, config)"
    by blast
  have g: "registered_gym_name example_externals = ''CustomSEUPressEnv-v0''"
    by (simp add: example_externals_def)
  from setup_exps_policies [of example_externals "''PPO''" "''CustomSEUPressEnv-v0''" config] c g
  show ?thesis by (auto simp: example_externals_def)
qed

text \<open>
  Claim C6. Whatever dict the module hands to \<open>run_experiments\<close>, it has the single
  experiment \<open>grid_0_3x4_multiagent\<close>, whose settings hold the stopping criterion
  \<open>training_iteration = 1000\<close>, \<open>checkpoint_freq = 20\<close>, \<open>checkpoint_at_end = True\<close> and
  \<open>max_failures = 999\<close>, beside the algorithm, the environment name and the configuration
  of \<open>setup_exps\<close>. A dict is handed over exactly when \<open>setup_exps\<close> returns.
\<close>

theorem experiments_launch_settings:
  "(experiments ext = Inr handed \<longrightarrow>
      (\<exists>spec config.
         handed = [(''grid_0_3x4_multiagent'', PyDict spec)]
         \<and> map_of spec ''stop'' = Some (PyDict [(''training_iteration'', PyInt 1000)])
         \<and> map_of spec ''checkpoint_freq'' = Some (PyInt 20)
         \<and> map_of spec ''checkpoint_at_end'' = Some (PyBool True)
         \<and> map_of spec ''max_failures'' = Some (PyInt 999)
         \<and> map_of spec ''run'' = Some (PyStr ''PPO'')
         \<and> map_of spec ''env'' = Some (PyStr (registered_gym_name ext))
         \<and> map_of spec ''config'' = Some (PyDict (dict_update [] config))
         \<and> setup_exps ext = Inr (''PPO'', registered_gym_name ext, config)))
   \<and> ((\<exists>d. experiments ext = Inr d) \<longleftrightarrow>
        has_dict (default_config ext) ''model'' \<and> has_dict (default_config ext) ''env_config''
        \<and> has_dict (default_config ext) ''multiagent'')"
proof (intro conjI impI)
  assume ok: "experiments ext = Inr handed"
  then obtain r where r: "setup_exps ext = Inr r"
    by (auto simp: experiments_def split: sum.splits)
  then have "\<exists>r. setup_exps ext = Inr r" by blast
  then obtain model env_config multiagent where
    "map_of (default_config ext) ''model'' = Some (PyDict model)"
    "map_of (default_config ext) ''env_config'' = Some (PyDict env_config)"
    "map_of (default_config ext) ''multiagent'' = Some (PyDict multiagent)"
    unfolding setup_exps_returns_iff has_dict_iff by blast
  from setup_exps_Inr [OF this] obtain config where
    c: "setup_exps ext = Inr (''PPO'', registered_gym_name ext, config)" by blast
  with ok show "\<exists>spec config.
         handed = [(''grid_0_3x4_multiagent'', PyDict spec)]
         \<and> map_of spec ''stop'' = Some (PyDict [(''training_iteration'', PyInt 1000)])
         \<and> map_of spec ''checkpoint_freq'' = Some (PyInt 20)
         \<and> map_of spec ''checkpoint_at_end'' = Some (PyBool True)
         \<and> map_of spec ''max_failures'' = Some (PyInt 999)
         \<and> map_of spec ''run'' = Some (PyStr ''PPO'')
         \<and> map_of spec ''env'' = Some (PyStr (registered_gym_name ext))
         \<and> map_of spec ''config'' = Some (PyDict (dict_update [] config))
         \<and> setup_exps ext = Inr (''PPO'', registered_gym_name ext, config)"
    by (auto simp: experiments_def exp_tag_module)
next
  have "(\<exists>d. experiments ext = Inr d) \<longleftrightarrow> (\<exists>r. setup_exps ext = Inr r)"
    by (auto simp: experiments_def split: sum.splits)
  then show "(\<exists>d. experiments ext = Inr d) \<longleftrightarrow>
        has_dict (default_config ext) ''model'' \<and> has_dict (default_config ext) ''env_config''
        \<and> has_dict (default_config ext) ''multiagent''"
    using setup_exps_returns_iff [of ext] by (simp only:)
qed

theorem experiments_launch_settings_witness:
  "\<exists>spec.
     experiments example_externals = Inr [(''grid_0_3x4_multiagent'', PyDict spec)]
     \<and> map_of spec ''stop'' = Some (PyDict [(''training_iteration'', PyInt 1000)])
     \<and> map_of spec ''checkpoint_freq'' = Some (PyInt 20)
     \<and> map_of spec ''checkpoint_at_end'' = Some (PyBool True)
     \<and> map_of spec ''max_failures'' = Some (PyInt 999)"
proof -
  have "\<exists>d. experiments example_externals = Inr d"
    using experiments_launch_settings [of example_externals] example_has_dicts by blast
  then obtain d where d: "experiments example_externals = Inr d" by blast
  from experiments_launch_settings [of example_externals d] d
  show ?thesis by auto
qed

section \<open>Properties of the plotting script\<close>

subsection \<open>The plotting functions, case by case\<close>

lemma plot_block_eq:
  "plot_block plt_plot w df P a b c yl sc =
     (case first_missing df [a, b, c, ''training_iteration''] of
        Some m \<Rightarrow> Raised (KeyError m) w
      | None \<Rightarrow>
          (case plot_error plt_plot df c of
             Some e \<Rightarrow> Raised e w
           | None \<Rightarrow> Returned (savefig (plt_show w) (reward_figure df c yl)
                       (P @ ''/'' @ sc @ ''fixed_time_ppo.png''))))"
  by (auto simp: plot_block_def first_missing_def getitem_def reward_figure_def EXP_TAG_def
      plot_error_def split: option.splits)

lemma sublist_PO_append:
  "sublist [a, b] (xs @ ys) \<longleftrightarrow>
     sublist [a, b] xs \<or> sublist [a, b] ys \<or> (xs \<noteq> [] \<and> last xs = a \<and> ys \<noteq> [] \<and> hd ys = b)"
proof (induction xs)
  case Nil
  show ?case by simp
next
  case (Cons x xs)
  show ?case
  proof (cases xs)
    case Nil
    then show ?thesis by (cases ys) (auto simp: sublist_Cons_right)
  next
    case (Cons x' xs')
    with Cons.IH show ?thesis by (auto simp: sublist_Cons_right)
  qed
qed

lemma no_PO_in_prefix: "\<not> sublist ''PO'' data_prefix"
  unfolding data_prefix_def by code_simp

lemma last_prefix: "last data_prefix = CHR ''/''"
  unfolding data_prefix_def by simp

lemma marker_test: "sublist ''PO'' (data_prefix @ PATH) \<longleftrightarrow> sublist ''PO'' PATH"
  using no_PO_in_prefix by (simp add: sublist_PO_append last_prefix)

lemma Both_Returned:
  assumes "files w (P @ ''/progress.csv'') = Some (Csv df)" "has_columns df episode_columns"
    "plot_error plt_plot df ''episode_reward_mean'' = None"
  shows "PlotbothRew_Inter plt_plot w P =
     Returned (w\<lparr>files := (files w)(P @ ''/all_fixed_time_ppo.png'' \<mapsto>
                   Png (reward_figure df ''episode_reward_mean'' ''reward'')),
                trace := trace w @ [ReadCsv (P @ ''/progress.csv''), Show,
                   SaveFig (P @ ''/all_fixed_time_ppo.png'')]\<rparr>)"
  using assms
  by (simp add: PlotbothRew_Inter_def read_csv_def plot_block_eq has_columns_def
      episode_columns_def savefig_def plt_show_def)

lemma Both_Raised_column:
  assumes "files w (P @ ''/progress.csv'') = Some (Csv df)"
    "first_missing df episode_columns = Some m"
  shows "PlotbothRew_Inter plt_plot w P =
     Raised (KeyError m) (w\<lparr>trace := trace w @ [ReadCsv (P @ ''/progress.csv'')]\<rparr>)"
  using assms
  by (simp add: PlotbothRew_Inter_def read_csv_def plot_block_eq episode_columns_def)

lemma Both_Raised_plot:
  assumes "files w (P @ ''/progress.csv'') = Some (Csv df)" "has_columns df episode_columns"
    "plot_error plt_plot df ''episode_reward_mean'' = Some e"
  shows "PlotbothRew_Inter plt_plot w P =
     Raised e (w\<lparr>trace := trace w @ [ReadCsv (P @ ''/progress.csv'')]\<rparr>)"
  using assms
  by (simp add: PlotbothRew_Inter_def read_csv_def plot_block_eq has_columns_def
      episode_columns_def)

lemma Both_Raised_missing:
  assumes "files w (P @ ''/progress.csv'') = None"
  shows "PlotbothRew_Inter plt_plot w P =
     Raised (FileNotFoundError (P @ ''/progress.csv''))
       (w\<lparr>trace := trace w @ [ReadCsv (P @ ''/progress.csv'')]\<rparr>)"
  using assms by (simp add: PlotbothRew_Inter_def read_csv_def Let_def)

lemma Both_Raised_unreadable:
  assumes "files w (P @ ''/progress.csv'') = Some s"
    "read_error (P @ ''/progress.csv'') s = Some e"
  shows "PlotbothRew_Inter plt_plot w P =
     Raised e (w\<lparr>trace := trace w @ [ReadCsv (P @ ''/progress.csv'')]\<rparr>)"
  using assms
  by (cases s) (simp_all add: PlotbothRew_Inter_def read_csv_def read_error_def Let_def)

lemma Cav_Returned:
  assumes "files w (P @ ''/progress.csv'') = Some (Csv df)" "has_columns df episode_columns"
    "has_columns df cav_columns" "has_columns df tl_columns"
    "plot_error plt_plot df ''episode_reward_mean'' = None"
    "plot_error plt_plot df ''policy_reward_mean/cav'' = None"
    "plot_error plt_plot df ''policy_reward_mean/tl'' = None"
  shows "PlotCav_LigthtRew_Inter plt_plot w P =
     Returned (w\<lparr>files := (files w)
                  (P @ ''/all_fixed_time_ppo.png'' \<mapsto>
                     Png (reward_figure df ''episode_reward_mean'' ''reward''),
                   P @ ''/icv_fixed_time_ppo.png'' \<mapsto>
                     Png (reward_figure df ''policy_reward_mean/cav'' ''icv_reward''),
                   P @ ''/tl_fixed_time_ppo.png'' \<mapsto>
                     Png (reward_figure df ''policy_reward_mean/tl'' ''tl_reward'')),
                trace := trace w @ [ReadCsv (P @ ''/progress.csv''), Show,
                   SaveFig (P @ ''/all_fixed_time_ppo.png''), Show,
                   SaveFig (P @ ''/icv_fixed_time_ppo.png''), Show,
                   SaveFig (P @ ''/tl_fixed_time_ppo.png'')]\<rparr>)"
  using assms
  by (simp add: PlotCav_LigthtRew_Inter_def read_csv_def plot_block_eq has_columns_def
      episode_columns_def cav_columns_def tl_columns_def savefig_def plt_show_def and_then_def)

lemma has_columns_append:
  "has_columns df (xs @ ys) \<longleftrightarrow> has_columns df xs \<and> has_columns df ys"
  by (auto simp: has_columns_def first_missing_def find_None_iff)

lemma PlotAll_Returned_single:
  assumes "\<not> sublist ''PO'' (data_prefix @ PATH)"
    "files w (log_file PATH) = Some (Csv df)" "has_columns df episode_columns"
    "plot_error plt_plot df ''episode_reward_mean'' = None"
  shows "PlotAll plt_plot w PATH =
     Returned (w\<lparr>files := (files w)(image_file PATH ''all_'' \<mapsto>
                   Png (reward_figure df ''episode_reward_mean'' ''reward'')),
                trace := trace w @ both_events PATH\<rparr>)"
  using assms Both_Returned [of w "data_prefix @ PATH" df plt_plot]
  by (simp add: PlotAll_def log_file_def image_file_def both_events_def)

lemma PlotAll_Returned_multi:
  assumes "sublist ''PO'' (data_prefix @ PATH)"
    "files w (log_file PATH) = Some (Csv df)" "has_columns df episode_columns"
    "has_columns df cav_columns" "has_columns df tl_columns"
    "plot_error plt_plot df ''episode_reward_mean'' = None"
    "plot_error plt_plot df ''policy_reward_mean/cav'' = None"
    "plot_error plt_plot df ''policy_reward_mean/tl'' = None"
  shows "PlotAll plt_plot w PATH =
     Returned (w\<lparr>files := (files w)
                  (image_file PATH ''all_'' \<mapsto>
                     Png (reward_figure df ''episode_reward_mean'' ''reward''),
                   image_file PATH ''icv_'' \<mapsto>
                     Png (reward_figure df ''policy_reward_mean/cav'' ''icv_reward''),
                   image_file PATH ''tl_'' \<mapsto>
                     Png (reward_figure df ''policy_reward_mean/tl'' ''tl_reward'')),
                trace := trace w @ both_events PATH @ cav_light_events PATH\<rparr>)"
proof -
  let ?P = "data_prefix @ PATH"
  let ?w1 = "w\<lparr>files := (files w)(?P @ ''/all_fixed_time_ppo.png'' \<mapsto>
                   Png (reward_figure df ''episode_reward_mean'' ''reward'')),
                trace := trace w @ [ReadCsv (?P @ ''/progress.csv''), Show,
                   SaveFig (?P @ ''/all_fixed_time_ppo.png'')]\<rparr>"
  have log: "files w (?P @ ''/progress.csv'') = Some (Csv df)"
    using assms(2) by (simp add: log_file_def)
  have b: "PlotbothRew_Inter plt_plot w ?P = Returned ?w1"
    using log assms(3,6) by (rule Both_Returned)
  have log1: "files ?w1 (?P @ ''/progress.csv'') = Some (Csv df)"
    using log by simp
  have c: "PlotCav_LigthtRew_Inter plt_plot ?w1 ?P = Returned (?w1\<lparr>files := (files ?w1)
                  (?P @ ''/all_fixed_time_ppo.png'' \<mapsto>
                     Png (reward_figure df ''episode_reward_mean'' ''reward''),
                   ?P @ ''/icv_fixed_time_ppo.png'' \<mapsto>
                     Png (reward_figure df ''policy_reward_mean/cav'' ''icv_reward''),
                   ?P @ ''/tl_fixed_time_ppo.png'' \<mapsto>
                     Png (reward_figure df ''policy_reward_mean/tl'' ''tl_reward'')),
                trace := trace ?w1 @ [ReadCsv (?P @ ''/progress.csv''), Show,
                   SaveFig (?P @ ''/all_fixed_time_ppo.png''), Show,
                   SaveFig (?P @ ''/icv_fixed_time_ppo.png''), Show,
                   SaveFig (?P @ ''/tl_fixed_time_ppo.png'')]\<rparr>)"
    using log1 assms(3,4,5,6,7,8) by (rule Cav_Returned)
  show ?thesis
    using assms(1) b c
    by (simp add: PlotAll_def and_then_def image_file_def log_file_def both_events_def
        cav_light_events_def)
qed









lemma log_not_png: "\<not> suffix ''.png'' (log_file Q)"
  by (simp add: log_file_def suffix_to_prefix)

lemma log_is_csv: "suffix ''/progress.csv'' (log_file Q)"
  by (simp add: log_file_def suffix_to_prefix)

lemma frame_plot_block:
  assumes "\<not> suffix ''.png'' p"
  shows "files (world_of (plot_block plt_plot w df P a b c yl sc)) p = files w p"
proof -
  have "suffix ''.png'' (P @ ''/'' @ sc @ ''fixed_time_ppo.png'')"
    by (simp add: suffix_to_prefix)
  with assms have "p \<noteq> P @ ''/'' @ sc @ ''fixed_time_ppo.png''" by metis
  then show ?thesis
    by (simp add: plot_block_eq savefig_def plt_show_def split: option.splits)
qed

lemma frame_and_then:
  assumes "files (world_of r) p = files w p"
    and "\<And>w1. files (world_of (k w1)) p = files w1 p"
  shows "files (world_of (and_then r k)) p = files w p"
  using assms by (cases r) (simp_all add: and_then_def)

lemma frame_read:
  assumes "\<And>df. files (world_of (k df (w\<lparr>trace := trace w @ [ReadCsv q]\<rparr>))) p = files w p"
  shows "files (world_of (case read_csv w q of (Inl e, w1) \<Rightarrow> Raised e w1
                                              | (Inr df, w1) \<Rightarrow> k df w1)) p = files w p"
  using assms by (simp add: read_csv_def Let_def split: option.splits stored.splits)

lemma frame_Both:
  assumes "\<not> suffix ''.png'' p"
  shows "files (world_of (PlotbothRew_Inter plt_plot w P)) p = files w p"
  unfolding PlotbothRew_Inter_def Let_def
  by (rule frame_read) (simp add: frame_plot_block [OF assms])

lemma frame_Cav:
  assumes "\<not> suffix ''.png'' p"
  shows "files (world_of (PlotCav_LigthtRew_Inter plt_plot w P)) p = files w p"
proof -
  have blocks: "files (world_of (and_then
               (plot_block plt_plot w1 df P
                  ''episode_reward_max'' ''episode_reward_min'' ''episode_reward_mean''
                  ''reward'' ''all_'')
               (\<lambda>w2. and_then
                  (plot_block plt_plot w2 df P
                     ''policy_reward_max/cav'' ''policy_reward_min/cav''
                     ''policy_reward_mean/cav'' ''icv_reward'' ''icv_'')
                  (\<lambda>w3. plot_block plt_plot w3 df P
                     ''policy_reward_max/tl'' ''policy_reward_min/tl''
                     ''policy_reward_mean/tl'' ''tl_reward'' ''tl_'')))) p = files w1 p" for w1 df
    by (intro frame_and_then frame_plot_block assms)
  show ?thesis
    unfolding PlotCav_LigthtRew_Inter_def Let_def
    by (rule frame_read) (simp add: blocks)
qed

lemma frame_PlotAll:
  assumes "\<not> suffix ''.png'' p"
  shows "files (world_of (PlotAll plt_plot w PATH)) p = files w p"
  unfolding PlotAll_def Let_def
  by (auto intro!: frame_and_then frame_Both frame_Cav assms)

lemma consumed_columns_split:
  "has_columns df (consumed_columns PATH) \<longleftrightarrow>
     has_columns df episode_columns
     \<and> (sublist ''PO'' (data_prefix @ PATH) \<longrightarrow> has_columns df cav_columns \<and> has_columns df tl_columns)"
  by (auto simp: consumed_columns_def has_columns_append)

lemma PlotAll_is_Returned:
  assumes "files w (log_file PATH) = Some (Csv df)" "has_columns df (consumed_columns PATH)"
    "plots_drawn plt_plot df PATH"
  shows "is_Returned (PlotAll plt_plot w PATH)"
proof (cases "sublist ''PO'' (data_prefix @ PATH)")
  case True
  with assms show ?thesis
    using PlotAll_Returned_multi [of PATH w df plt_plot]
    by (simp add: consumed_columns_split plots_drawn_def)
next
  case False
  with assms show ?thesis
    using PlotAll_Returned_single [of PATH w df plt_plot]
    by (simp add: consumed_columns_split plots_drawn_def)
qed


lemma full_frame_has_columns: "has_columns full_frame (consumed_columns PATH)"
  by (simp add: consumed_columns_def has_columns_def first_missing_def full_frame_def
      scenario_frame_def episode_columns_def cav_columns_def tl_columns_def)

lemma draws_all_drawn: "plots_drawn draws_all df PATH"
  by (simp add: plots_drawn_def plot_error_def draws_all_def)


lemma saved_append: "saved (xs @ ys) = saved xs @ saved ys"
  by (induction xs rule: saved.induct) simp_all

lemma new_events_append: "new_events w (w'\<lparr>trace := trace w @ evs\<rparr>) = evs"
  by (simp add: new_events_def)

lemma image_files_distinct:
  "image_file PATH ''all_'' \<noteq> image_file PATH ''icv_''"
  "image_file PATH ''all_'' \<noteq> image_file PATH ''tl_''"
  "image_file PATH ''icv_'' \<noteq> image_file PATH ''tl_''"
  by (simp_all add: image_file_def)

lemma PO_paths:
  "sublist ''PO'' (data_prefix @ ''1*1'' @ luwang @ ''/Co_PPO'')"
  "\<not> sublist ''PO'' (data_prefix @ ''1*1'' @ luwang @ ''/RL_HV'')"
  "\<not> sublist ''PO'' (data_prefix @ ''1*1'' @ luwang @ ''/fixedtime_cav'')"
  unfolding marker_test by (simp_all add: luwang_def sublist_Cons_right)

lemma PlotAll_saves:
  assumes "files w (log_file PATH) = Some (Csv df)"
    and "has_columns df (consumed_columns PATH)"
    and "plots_drawn plt_plot df PATH"
  shows "\<exists>w'. PlotAll plt_plot w PATH = Returned w'
     \<and> set (saved (new_events w w')) =
         (if sublist ''PO'' (data_prefix @ PATH)
          then {data_prefix @ PATH @ ''/all_fixed_time_ppo.png'',
                data_prefix @ PATH @ ''/icv_fixed_time_ppo.png'',
                data_prefix @ PATH @ ''/tl_fixed_time_ppo.png''}
          else {data_prefix @ PATH @ ''/all_fixed_time_ppo.png''})
     \<and> card (set (saved (new_events w w'))) = (if sublist ''PO'' (data_prefix @ PATH) then 3 else 1)
     \<and> (\<forall>p \<in> set (saved (new_events w w')). \<exists>fig. files w' p = Some (Png fig))
     \<and> (\<forall>p. p \<notin> set (saved (new_events w w')) \<longrightarrow> files w' p = files w p)"
proof (cases "sublist ''PO'' (data_prefix @ PATH)")
  case True
  with assms have cols: "has_columns df episode_columns" "has_columns df cav_columns"
    "has_columns df tl_columns"
    by (simp_all add: consumed_columns_split)
  from True assms(3) have drawn: "plot_error plt_plot df ''episode_reward_mean'' = None"
    "plot_error plt_plot df ''policy_reward_mean/cav'' = None"
    "plot_error plt_plot df ''policy_reward_mean/tl'' = None"
    by (simp_all add: plots_drawn_def)
  note r = PlotAll_Returned_multi [OF True assms(1) cols drawn]
  have s: "saved (both_events PATH @ cav_light_events PATH) =
      [image_file PATH ''all_'', image_file PATH ''all_'', image_file PATH ''icv_'',
       image_file PATH ''tl_'']"
    by (simp add: both_events_def cav_light_events_def)
  show ?thesis
    unfolding r using True image_files_distinct [of PATH]
    by (simp add: new_events_append s) (auto simp: image_file_def)
next
  case False
  with assms have cols: "has_columns df episode_columns"
    by (simp add: consumed_columns_split)
  from assms(3) have drawn: "plot_error plt_plot df ''episode_reward_mean'' = None"
    by (simp add: plots_drawn_def)
  note r = PlotAll_Returned_single [OF False assms(1) cols drawn]
  show ?thesis
    unfolding r using False
    by (simp add: new_events_append both_events_def) (auto simp: image_file_def)
qed

lemma first_missing_append:
  "first_missing df (xs @ ys) =
     (case first_missing df xs of Some c \<Rightarrow> Some c | None \<Rightarrow> first_missing df ys)"
  by (induction xs) (simp_all add: first_missing_def)

lemma has_columns_iff: "has_columns df cs \<longleftrightarrow> set cs \<subseteq> fst ` set df"
  by (auto simp: has_columns_def first_missing_def find_None_iff map_of_eq_None_iff)

lemma files_after_read [simp]: "files (after_read w PATH) = files w"
  by (simp add: after_read_def)

lemma files_after_block_log [simp]:
  "files (after_block w df PATH c yl sc) (log_file Q) = files w (log_file Q)"
  by (simp add: after_block_def image_file_def log_file_def)

lemma plot_block_data:
  "plot_block plt_plot w df (data_prefix @ PATH) a b c yl sc =
     (case first_missing df [a, b, c, ''training_iteration''] of
        Some m \<Rightarrow> Raised (KeyError m) w
      | None \<Rightarrow>
          (case plot_error plt_plot df c of
             Some e \<Rightarrow> Raised e w
           | None \<Rightarrow> Returned (after_block w df PATH c yl sc)))"
  by (simp add: plot_block_eq after_block_def image_file_def savefig_def plt_show_def
      split: option.splits)

lemma Both_data:
  "PlotbothRew_Inter plt_plot w (data_prefix @ PATH) =
     (case files w (log_file PATH) of
        None \<Rightarrow> Raised (FileNotFoundError (log_file PATH)) (after_read w PATH)
      | Some s \<Rightarrow>
          (case read_error (log_file PATH) s of
             Some e \<Rightarrow> Raised e (after_read w PATH)
           | None \<Rightarrow>
               plot_block plt_plot (after_read w PATH) (case s of Csv df \<Rightarrow> df)
                 (data_prefix @ PATH)
                 ''episode_reward_max'' ''episode_reward_min'' ''episode_reward_mean''
                 ''reward'' ''all_''))"
  by (simp add: PlotbothRew_Inter_def read_csv_def Let_def after_read_def log_file_def
      read_error_def split: option.splits stored.splits)

lemma Cav_data:
  assumes "files w (log_file PATH) = Some (Csv df)"
  shows "PlotCav_LigthtRew_Inter plt_plot w (data_prefix @ PATH) =
     and_then
       (plot_block plt_plot (after_read w PATH) df (data_prefix @ PATH)
          ''episode_reward_max'' ''episode_reward_min'' ''episode_reward_mean''
          ''reward'' ''all_'')
       (\<lambda>w2. and_then
          (plot_block plt_plot w2 df (data_prefix @ PATH)
             ''policy_reward_max/cav'' ''policy_reward_min/cav''
             ''policy_reward_mean/cav'' ''icv_reward'' ''icv_'')
          (\<lambda>w3. plot_block plt_plot w3 df (data_prefix @ PATH)
             ''policy_reward_max/tl'' ''policy_reward_min/tl''
             ''policy_reward_mean/tl'' ''tl_reward'' ''tl_''))"
  using assms
  by (simp add: PlotCav_LigthtRew_Inter_def read_csv_def Let_def after_read_def log_file_def)

text \<open>The four ways in which a directory with a readable log can fail in its first block.\<close>

lemma PlotAll_Raised_missing:
  assumes "files w (log_file PATH) = None"
  shows "PlotAll plt_plot w PATH = Raised (FileNotFoundError (log_file PATH)) (after_read w PATH)"
  using assms by (simp add: PlotAll_def Let_def and_then_def Both_data)

lemma PlotAll_Raised_unreadable:
  assumes "files w (log_file PATH) = Some s" "read_error (log_file PATH) s = Some e"
  shows "PlotAll plt_plot w PATH = Raised e (after_read w PATH)"
  using assms by (simp add: PlotAll_def Let_def and_then_def Both_data)

lemma PlotAll_Raised_episode_column:
  assumes "files w (log_file PATH) = Some (Csv df)" "first_missing df episode_columns = Some c"
  shows "PlotAll plt_plot w PATH = Raised (KeyError c) (after_read w PATH)"
  using assms
  by (simp add: PlotAll_def Let_def and_then_def Both_data read_error_def plot_block_data
      episode_columns_def)

lemma PlotAll_Raised_episode_plot:
  assumes "files w (log_file PATH) = Some (Csv df)" "has_columns df episode_columns"
    "plot_error plt_plot df ''episode_reward_mean'' = Some e"
  shows "PlotAll plt_plot w PATH = Raised e (after_read w PATH)"
  using assms
  by (simp add: PlotAll_def Let_def and_then_def Both_data read_error_def plot_block_data
      episode_columns_def has_columns_def)

text \<open>A marker directory whose first function returned.\<close>

lemma PlotAll_after_both:
  assumes "sublist ''PO'' (data_prefix @ PATH)"
    "files w (log_file PATH) = Some (Csv df)" "has_columns df episode_columns"
    "plot_error plt_plot df ''episode_reward_mean'' = None"
  shows "PlotAll plt_plot w PATH =
     and_then
       (plot_block plt_plot
          (after_block (after_read (after_block (after_read w PATH) df PATH
             ''episode_reward_mean'' ''reward'' ''all_'') PATH) df PATH
             ''episode_reward_mean'' ''reward'' ''all_'')
          df (data_prefix @ PATH)
          ''policy_reward_max/cav'' ''policy_reward_min/cav''
          ''policy_reward_mean/cav'' ''icv_reward'' ''icv_'')
       (\<lambda>w3. plot_block plt_plot w3 df (data_prefix @ PATH)
          ''policy_reward_max/tl'' ''policy_reward_min/tl''
          ''policy_reward_mean/tl'' ''tl_reward'' ''tl_'')"
proof -
  let ?w1 = "after_block (after_read w PATH) df PATH ''episode_reward_mean'' ''reward'' ''all_''"
  have b: "PlotbothRew_Inter plt_plot w (data_prefix @ PATH) = Returned ?w1"
    using assms(2,3,4)
    by (simp add: Both_data read_error_def plot_block_data episode_columns_def has_columns_def)
  have "files ?w1 (log_file PATH) = Some (Csv df)" using assms(2) by simp
  from Cav_data [OF this] assms(3,4)
  have "PlotCav_LigthtRew_Inter plt_plot ?w1 (data_prefix @ PATH) =
     and_then
       (plot_block plt_plot
          (after_block (after_read ?w1 PATH) df PATH ''episode_reward_mean'' ''reward'' ''all_'')
          df (data_prefix @ PATH)
          ''policy_reward_max/cav'' ''policy_reward_min/cav''
          ''policy_reward_mean/cav'' ''icv_reward'' ''icv_'')
       (\<lambda>w3. plot_block plt_plot w3 df (data_prefix @ PATH)
          ''policy_reward_max/tl'' ''policy_reward_min/tl''
          ''policy_reward_mean/tl'' ''tl_reward'' ''tl_'')"
    by (simp add: plot_block_data episode_columns_def has_columns_def and_then_def)
  with b assms(1) show ?thesis by (simp add: PlotAll_def Let_def and_then_def)
qed

lemma PlotAll_Raised_cav_column:
  assumes "sublist ''PO'' (data_prefix @ PATH)"
    "files w (log_file PATH) = Some (Csv df)" "has_columns df episode_columns"
    "plot_error plt_plot df ''episode_reward_mean'' = None"
    "first_missing df cav_columns = Some c"
  shows "PlotAll plt_plot w PATH =
     Raised (KeyError c)
       (after_block (after_read (after_block (after_read w PATH) df PATH
          ''episode_reward_mean'' ''reward'' ''all_'') PATH) df PATH
          ''episode_reward_mean'' ''reward'' ''all_'')"
  using assms(5)
  by (simp add: PlotAll_after_both [OF assms(1-4)] plot_block_data and_then_def cav_columns_def)

lemma PlotAll_Raised_cav_plot:
  assumes "sublist ''PO'' (data_prefix @ PATH)"
    "files w (log_file PATH) = Some (Csv df)" "has_columns df episode_columns"
    "plot_error plt_plot df ''episode_reward_mean'' = None"
    "has_columns df cav_columns" "plot_error plt_plot df ''policy_reward_mean/cav'' = Some e"
  shows "PlotAll plt_plot w PATH =
     Raised e
       (after_block (after_read (after_block (after_read w PATH) df PATH
          ''episode_reward_mean'' ''reward'' ''all_'') PATH) df PATH
          ''episode_reward_mean'' ''reward'' ''all_'')"
  using assms(5,6)
  by (simp add: PlotAll_after_both [OF assms(1-4)] plot_block_data and_then_def cav_columns_def
      has_columns_def)

lemma PlotAll_Raised_tl_column:
  assumes "sublist ''PO'' (data_prefix @ PATH)"
    "files w (log_file PATH) = Some (Csv df)" "has_columns df episode_columns"
    "plot_error plt_plot df ''episode_reward_mean'' = None"
    "has_columns df cav_columns" "plot_error plt_plot df ''policy_reward_mean/cav'' = None"
    "first_missing df tl_columns = Some c"
  shows "PlotAll plt_plot w PATH =
     Raised (KeyError c)
       (after_block
         (after_block (after_read (after_block (after_read w PATH) df PATH
            ''episode_reward_mean'' ''reward'' ''all_'') PATH) df PATH
            ''episode_reward_mean'' ''reward'' ''all_'')
         df PATH ''policy_reward_mean/cav'' ''icv_reward'' ''icv_'')"
  using assms(5,6,7)
  by (simp add: PlotAll_after_both [OF assms(1-4)] plot_block_data and_then_def cav_columns_def
      tl_columns_def has_columns_def)

lemma PlotAll_Raised_tl_plot:
  assumes "sublist ''PO'' (data_prefix @ PATH)"
    "files w (log_file PATH) = Some (Csv df)" "has_columns df episode_columns"
    "plot_error plt_plot df ''episode_reward_mean'' = None"
    "has_columns df cav_columns" "plot_error plt_plot df ''policy_reward_mean/cav'' = None"
    "has_columns df tl_columns" "plot_error plt_plot df ''policy_reward_mean/tl'' = Some e"
  shows "PlotAll plt_plot w PATH =
     Raised e
       (after_block
         (after_block (after_read (after_block (after_read w PATH) df PATH
            ''episode_reward_mean'' ''reward'' ''all_'') PATH) df PATH
            ''episode_reward_mean'' ''reward'' ''all_'')
         df PATH ''policy_reward_mean/cav'' ''icv_reward'' ''icv_'')"
  using assms(5,6,7,8)
  by (simp add: PlotAll_after_both [OF assms(1-4)] plot_block_data and_then_def cav_columns_def
      tl_columns_def has_columns_def)

lemma read_error_None_iff: "read_error p s = None \<longleftrightarrow> (\<exists>df. s = Csv df)"
  by (cases s) (simp_all add: read_error_def)

lemma PlotAll_is_Returned_iff:
  "is_Returned (PlotAll plt_plot w PATH) \<longleftrightarrow>
     (\<exists>df. files w (log_file PATH) = Some (Csv df) \<and> has_columns df (consumed_columns PATH)
        \<and> plots_drawn plt_plot df PATH)"
proof
  assume r: "is_Returned (PlotAll plt_plot w PATH)"
  show "\<exists>df. files w (log_file PATH) = Some (Csv df) \<and> has_columns df (consumed_columns PATH)
        \<and> plots_drawn plt_plot df PATH"
  proof (cases "files w (log_file PATH)")
    case None
    from PlotAll_Raised_missing [OF None, of plt_plot] r show ?thesis by simp
  next
    case (Some s)
    show ?thesis
    proof (cases "read_error (log_file PATH) s")
      case (Some e)
      from PlotAll_Raised_unreadable [OF \<open>files w (log_file PATH) = Some s\<close> Some, of plt_plot] r
      show ?thesis by simp
    next
      case None
      then obtain df where "s = Csv df" by (auto simp: read_error_None_iff)
      with Some have f: "files w (log_file PATH) = Some (Csv df)" by simp
      have e: "has_columns df episode_columns"
      proof (cases "first_missing df episode_columns")
        case None
        then show ?thesis by (simp add: has_columns_def)
      next
        case (Some c)
        from PlotAll_Raised_episode_column [OF f Some, of plt_plot] r show ?thesis by simp
      qed
      have ep: "plot_error plt_plot df ''episode_reward_mean'' = None"
      proof (cases "plot_error plt_plot df ''episode_reward_mean''")
        case None
        then show ?thesis .
      next
        case (Some e')
        from PlotAll_Raised_episode_plot [OF f e Some] r show ?thesis by simp
      qed
      show ?thesis
      proof (cases "sublist ''PO'' (data_prefix @ PATH)")
        case False
        with f e ep show ?thesis
          by (auto simp: consumed_columns_split plots_drawn_def)
      next
        case True
        have c: "has_columns df cav_columns"
        proof (cases "first_missing df cav_columns")
          case None
          then show ?thesis by (simp add: has_columns_def)
        next
          case (Some c)
          from PlotAll_Raised_cav_column [OF True f e ep Some] r show ?thesis by simp
        qed
        have cp: "plot_error plt_plot df ''policy_reward_mean/cav'' = None"
        proof (cases "plot_error plt_plot df ''policy_reward_mean/cav''")
          case None
          then show ?thesis .
        next
          case (Some e')
          from PlotAll_Raised_cav_plot [OF True f e ep c Some] r show ?thesis by simp
        qed
        have t: "has_columns df tl_columns"
        proof (cases "first_missing df tl_columns")
          case None
          then show ?thesis by (simp add: has_columns_def)
        next
          case (Some c')
          from PlotAll_Raised_tl_column [OF True f e ep c cp Some] r show ?thesis by simp
        qed
        have tp: "plot_error plt_plot df ''policy_reward_mean/tl'' = None"
        proof (cases "plot_error plt_plot df ''policy_reward_mean/tl''")
          case None
          then show ?thesis .
        next
          case (Some e')
          from PlotAll_Raised_tl_plot [OF True f e ep c cp t Some] r show ?thesis by simp
        qed
        from f e c t ep cp tp True show ?thesis
          by (auto simp: consumed_columns_split plots_drawn_def)
      qed
    qed
  qed
next
  assume "\<exists>df. files w (log_file PATH) = Some (Csv df) \<and> has_columns df (consumed_columns PATH)
        \<and> plots_drawn plt_plot df PATH"
  then show "is_Returned (PlotAll plt_plot w PATH)" using PlotAll_is_Returned by blast
qed

lemma for_PATH_in_append:
  "for_PATH_in plt_plot w (ps @ qs) =
     and_then (for_PATH_in plt_plot w ps) (\<lambda>w1. for_PATH_in plt_plot w1 qs)"
proof (induction ps arbitrary: w)
  case Nil
  show ?case by (simp add: and_then_def)
next
  case (Cons p ps)
  show ?case by (cases "PlotAll plt_plot w p") (simp_all add: and_then_def Cons.IH)
qed

lemma for_PATH_in_Raised:
  assumes "for_PATH_in plt_plot w0 ps = Returned w" "PlotAll plt_plot w PATH = Raised e w'"
  shows "for_PATH_in plt_plot w0 (ps @ PATH # qs) = Raised e w'"
  using assms by (simp add: for_PATH_in_append and_then_def)

lemma Both_is_Returned_iff:
  assumes "files w (P @ ''/progress.csv'') = Some (Csv df)"
  shows "is_Returned (PlotbothRew_Inter plt_plot w P) \<longleftrightarrow>
     has_columns df episode_columns \<and> plot_error plt_plot df ''episode_reward_mean'' = None"
proof (cases "first_missing df episode_columns")
  case (Some m)
  then have "\<not> has_columns df episode_columns" by (simp add: has_columns_def)
  with Both_Raised_column [OF assms Some, of plt_plot] show ?thesis by simp
next
  case None
  then have h: "has_columns df episode_columns" by (simp add: has_columns_def)
  show ?thesis
  proof (cases "plot_error plt_plot df ''episode_reward_mean''")
    case None
    with Both_Returned [OF assms h None] h show ?thesis by simp
  next
    case (Some e)
    with Both_Raised_plot [OF assms h Some] show ?thesis by simp
  qed
qed

subsection \<open>Image files of one directory\<close>

text \<open>
  Claim C2. \<open>PlotAll\<close> runs to its end on a directory exactly when the log of the directory
  is readable, holds the columns that \<open>PlotAll\<close> selects for it, and \<open>plt.plot\<close> draws the
  series of each block. Whenever it runs to its end, the image files it saved are: when the
  data path contains the marker \<open>PO\<close>, exactly the three distinct files
  \<open>all_fixed_time_ppo.png\<close>, \<open>icv_fixed_time_ppo.png\<close> and \<open>tl_fixed_time_ppo.png\<close>; otherwise
  exactly the one file \<open>all_fixed_time_ppo.png\<close>. Each is an image in the directory of the
  log, and no other file is changed.
\<close>

theorem PlotAll_image_files:
  "((\<exists>w'. PlotAll plt_plot w PATH = Returned w') \<longleftrightarrow>
      (\<exists>df. files w (log_file PATH) = Some (Csv df) \<and> has_columns df (consumed_columns PATH)
         \<and> plots_drawn plt_plot df PATH))
   \<and> (PlotAll plt_plot w PATH = Returned w' \<longrightarrow>
        set (saved (new_events w w')) =
          (if sublist ''PO'' (data_prefix @ PATH)
           then {data_prefix @ PATH @ ''/all_fixed_time_ppo.png'',
                 data_prefix @ PATH @ ''/icv_fixed_time_ppo.png'',
                 data_prefix @ PATH @ ''/tl_fixed_time_ppo.png''}
           else {data_prefix @ PATH @ ''/all_fixed_time_ppo.png''})
        \<and> card (set (saved (new_events w w'))) =
            (if sublist ''PO'' (data_prefix @ PATH) then 3 else 1)
        \<and> (\<forall>p \<in> set (saved (new_events w w')). \<exists>fig. files w' p = Some (Png fig))
        \<and> (\<forall>p. p \<notin> set (saved (new_events w w')) \<longrightarrow> files w' p = files w p))"
proof (rule conjI)
  have "(\<exists>w'. PlotAll plt_plot w PATH = Returned w') \<longleftrightarrow> is_Returned (PlotAll plt_plot w PATH)"
    by (cases "PlotAll plt_plot w PATH") simp_all
  then show "(\<exists>w'. PlotAll plt_plot w PATH = Returned w') \<longleftrightarrow>
      (\<exists>df. files w (log_file PATH) = Some (Csv df) \<and> has_columns df (consumed_columns PATH)
         \<and> plots_drawn plt_plot df PATH)"
    by (simp only: PlotAll_is_Returned_iff)
next
  show "PlotAll plt_plot w PATH = Returned w' \<longrightarrow>
        set (saved (new_events w w')) =
          (if sublist ''PO'' (data_prefix @ PATH)
           then {data_prefix @ PATH @ ''/all_fixed_time_ppo.png'',
                 data_prefix @ PATH @ ''/icv_fixed_time_ppo.png'',
                 data_prefix @ PATH @ ''/tl_fixed_time_ppo.png''}
           else {data_prefix @ PATH @ ''/all_fixed_time_ppo.png''})
        \<and> card (set (saved (new_events w w'))) =
            (if sublist ''PO'' (data_prefix @ PATH) then 3 else 1)
        \<and> (\<forall>p \<in> set (saved (new_events w w')). \<exists>fig. files w' p = Some (Png fig))
        \<and> (\<forall>p. p \<notin> set (saved (new_events w w')) \<longrightarrow> files w' p = files w p)"
  proof (rule impI)
    assume r: "PlotAll plt_plot w PATH = Returned w'"
    then have "is_Returned (PlotAll plt_plot w PATH)" by simp
    then obtain df where "files w (log_file PATH) = Some (Csv df)"
      "has_columns df (consumed_columns PATH)" "plots_drawn plt_plot df PATH"
      unfolding PlotAll_is_Returned_iff by blast
    from PlotAll_saves [OF this] r
    show "set (saved (new_events w w')) =
          (if sublist ''PO'' (data_prefix @ PATH)
           then {data_prefix @ PATH @ ''/all_fixed_time_ppo.png'',
                 data_prefix @ PATH @ ''/icv_fixed_time_ppo.png'',
                 data_prefix @ PATH @ ''/tl_fixed_time_ppo.png''}
           else {data_prefix @ PATH @ ''/all_fixed_time_ppo.png''})
        \<and> card (set (saved (new_events w w'))) =
            (if sublist ''PO'' (data_prefix @ PATH) then 3 else 1)
        \<and> (\<forall>p \<in> set (saved (new_events w w')). \<exists>fig. files w' p = Some (Png fig))
        \<and> (\<forall>p. p \<notin> set (saved (new_events w w')) \<longrightarrow> files w' p = files w p)"
      by simp
  qed
qed

theorem PlotAll_image_files_witness:
  "(\<exists>w'. PlotAll draws_all all_logs_world (''1*1'' @ luwang @ ''/Co_PPO'') = Returned w'
       \<and> card (set (saved (new_events all_logs_world w'))) = 3)
   \<and> (\<exists>w'. PlotAll draws_all all_logs_world (''1*1'' @ luwang @ ''/RL_HV'') = Returned w'
       \<and> set (saved (new_events all_logs_world w')) =
           {data_prefix @ (''1*1'' @ luwang @ ''/RL_HV'') @ ''/all_fixed_time_ppo.png''})
   \<and> \<not> (\<exists>w'. PlotAll draws_numbers text_gap_world (''1*1'' @ luwang @ ''/RL_HV'') = Returned w')"
proof -
  have f: "\<exists>df. files all_logs_world (log_file P) = Some (Csv df)
      \<and> has_columns df (consumed_columns P) \<and> plots_drawn draws_all df P" for P
    by (simp add: all_logs_world_def log_is_csv full_frame_has_columns draws_all_drawn)
  let ?A = "''1*1'' @ luwang @ ''/Co_PPO''"
  let ?B = "''1*1'' @ luwang @ ''/RL_HV''"
  from PlotAll_image_files [of draws_all all_logs_world ?A] f [of ?A]
  obtain wa where a: "PlotAll draws_all all_logs_world ?A = Returned wa" by blast
  from PlotAll_image_files [of draws_all all_logs_world ?B] f [of ?B]
  obtain wb where b: "PlotAll draws_all all_logs_world ?B = Returned wb" by blast
  from PlotAll_image_files [of draws_all all_logs_world ?A wa] a PO_paths(1)
  have "card (set (saved (new_events all_logs_world wa))) = 3" by simp
  moreover from PlotAll_image_files [of draws_all all_logs_world ?B wb] b PO_paths(2)
  have "set (saved (new_events all_logs_world wb)) = {data_prefix @ ?B @ ''/all_fixed_time_ppo.png''}"
    by simp
  moreover have "\<not> (\<exists>df. files text_gap_world (log_file ?B) = Some (Csv df)
      \<and> has_columns df (consumed_columns ?B) \<and> plots_drawn draws_numbers df ?B)"
    by (simp add: text_gap_world_def text_gap_frame_def plots_drawn_def plot_error_def
        draws_numbers_def)
  with PlotAll_image_files [of draws_numbers text_gap_world ?B]
  have "\<not> (\<exists>w'. PlotAll draws_numbers text_gap_world ?B = Returned w')" by blast
  ultimately show ?thesis using a b by blast
qed

subsection \<open>The end-to-end scenario\<close>

text \<open>
  Claim C4. In a directory whose data path does not contain the marker, a log with the
  columns \<open>training_iteration\<close>, \<open>episode_reward_mean\<close>, \<open>episode_reward_min\<close> and
  \<open>episode_reward_max\<close>, iterations 1, 2, 3 and means 0.1, 0.2, 0.3, whose two plotted series
  \<open>plt.plot\<close> draws, makes \<open>PlotAll\<close> return after one read, one show and one save: the
  single image \<open>all_fixed_time_ppo.png\<close>, whose line is the means against the iterations.
  \<open>PlotbothRew_Inter\<close> on a readable log returns exactly when the frame has these four
  columns and \<open>plt.plot\<close> draws the mean against the iteration; what it saves is read from
  \<open>training_iteration\<close> and \<open>episode_reward_mean\<close> alone.
\<close>

theorem scenario_one_image:
  "(\<not> sublist ''PO'' (data_prefix @ PATH)
      \<and> files w (log_file PATH) = Some (Csv (scenario_frame mins maxs))
      \<and> plt_plot [1, 2, 3] [1 / 10, 2 / 10, 3 / 10] = None \<longrightarrow>
      PlotAll plt_plot w PATH =
        Returned (w\<lparr>files := (files w)(data_prefix @ PATH @ ''/all_fixed_time_ppo.png'' \<mapsto>
                      Png \<lparr>line_x = [1, 2, 3], line_y = [1 / 10, 2 / 10, 3 / 10],
                           xlabel = ''number of iterations'', ylabel = ''reward''\<rparr>),
                   trace := trace w @
                     [ReadCsv (data_prefix @ PATH @ ''/progress.csv''), Show,
                      SaveFig (data_prefix @ PATH @ ''/all_fixed_time_ppo.png'')]\<rparr>))
   \<and> (files v (P @ ''/progress.csv'') = Some (Csv df) \<longrightarrow>
        (is_Returned (PlotbothRew_Inter pl v P) \<longleftrightarrow>
           {''training_iteration'', ''episode_reward_mean'', ''episode_reward_min'',
            ''episode_reward_max''} \<subseteq> fst ` set df
           \<and> pl (the (map_of df ''training_iteration''))
                 (the (map_of df ''episode_reward_mean'')) = None)
        \<and> (is_Returned (PlotbothRew_Inter pl v P) \<longrightarrow>
             PlotbothRew_Inter pl v P =
               Returned (v\<lparr>files := (files v)(P @ ''/all_fixed_time_ppo.png'' \<mapsto>
                             Png \<lparr>line_x = the (map_of df ''training_iteration''),
                                  line_y = the (map_of df ''episode_reward_mean''),
                                  xlabel = ''number of iterations'', ylabel = ''reward''\<rparr>),
                          trace := trace v @ [ReadCsv (P @ ''/progress.csv''), Show,
                             SaveFig (P @ ''/all_fixed_time_ppo.png'')]\<rparr>)))"
proof (intro conjI impI)
  assume a: "\<not> sublist ''PO'' (data_prefix @ PATH)
      \<and> files w (log_file PATH) = Some (Csv (scenario_frame mins maxs))
      \<and> plt_plot [1, 2, 3] [1 / 10, 2 / 10, 3 / 10] = None"
  have cols: "has_columns (scenario_frame mins maxs) episode_columns"
    by (simp add: has_columns_def first_missing_def scenario_frame_def episode_columns_def)
  have fig: "reward_figure (scenario_frame mins maxs) ''episode_reward_mean'' ''reward'' =
      \<lparr>line_x = [1, 2, 3], line_y = [1 / 10, 2 / 10, 3 / 10],
       xlabel = ''number of iterations'', ylabel = ''reward''\<rparr>"
    by (simp add: reward_figure_def scenario_frame_def)
  from a have drawn: "plot_error plt_plot (scenario_frame mins maxs) ''episode_reward_mean'' = None"
    by (simp add: plot_error_def scenario_frame_def)
  from a PlotAll_Returned_single [of PATH w "scenario_frame mins maxs" plt_plot, OF _ _ cols drawn]
  show "PlotAll plt_plot w PATH =
        Returned (w\<lparr>files := (files w)(data_prefix @ PATH @ ''/all_fixed_time_ppo.png'' \<mapsto>
                      Png \<lparr>line_x = [1, 2, 3], line_y = [1 / 10, 2 / 10, 3 / 10],
                           xlabel = ''number of iterations'', ylabel = ''reward''\<rparr>),
                   trace := trace w @
                     [ReadCsv (data_prefix @ PATH @ ''/progress.csv''), Show,
                      SaveFig (data_prefix @ PATH @ ''/all_fixed_time_ppo.png'')]\<rparr>)"
    by (simp add: fig both_events_def image_file_def log_file_def)
next
  assume f: "files v (P @ ''/progress.csv'') = Some (Csv df)"
  show "is_Returned (PlotbothRew_Inter pl v P) \<longleftrightarrow>
           {''training_iteration'', ''episode_reward_mean'', ''episode_reward_min'',
            ''episode_reward_max''} \<subseteq> fst ` set df
           \<and> pl (the (map_of df ''training_iteration''))
                 (the (map_of df ''episode_reward_mean'')) = None"
    unfolding Both_is_Returned_iff [OF f] has_columns_iff plot_error_def
    by (auto simp: episode_columns_def)
next
  assume f: "files v (P @ ''/progress.csv'') = Some (Csv df)"
    and r: "is_Returned (PlotbothRew_Inter pl v P)"
  from r have "has_columns df episode_columns" "plot_error pl df ''episode_reward_mean'' = None"
    by (simp_all add: Both_is_Returned_iff [OF f])
  from Both_Returned [OF f this]
  show "PlotbothRew_Inter pl v P =
               Returned (v\<lparr>files := (files v)(P @ ''/all_fixed_time_ppo.png'' \<mapsto>
                             Png \<lparr>line_x = the (map_of df ''training_iteration''),
                                  line_y = the (map_of df ''episode_reward_mean''),
                                  xlabel = ''number of iterations'', ylabel = ''reward''\<rparr>),
                          trace := trace v @ [ReadCsv (P @ ''/progress.csv''), Show,
                             SaveFig (P @ ''/all_fixed_time_ppo.png'')]\<rparr>)"
    by (simp add: reward_figure_def)
qed

theorem scenario_one_image_witness:
  "(\<exists>w'. PlotAll draws_all scenario_world (''1*1'' @ luwang @ ''/RL_HV'') = Returned w'
     \<and> saved (trace w') = [data_prefix @ (''1*1'' @ luwang @ ''/RL_HV'') @ ''/all_fixed_time_ppo.png''])
   \<and> is_Returned (PlotbothRew_Inter draws_all scenario_world
         (data_prefix @ ''1*1'' @ luwang @ ''/RL_HV''))
   \<and> \<not> is_Returned (PlotbothRew_Inter draws_numbers text_gap_world
         (data_prefix @ ''1*1'' @ luwang @ ''/RL_HV''))"
proof -
  let ?P = "''1*1'' @ luwang @ ''/RL_HV''"
  have f: "files scenario_world (log_file ?P) = Some (Csv (scenario_frame [0, 0, 0] [1, 1, 1]))"
    by (simp add: scenario_world_def)
  have f': "files scenario_world ((data_prefix @ ?P) @ ''/progress.csv'') =
      Some (Csv (scenario_frame [0, 0, 0] [1, 1, 1]))"
    using f by (simp add: log_file_def)
  have t: "trace scenario_world = []" by (simp add: scenario_world_def)
  have c: "{''training_iteration'', ''episode_reward_mean'', ''episode_reward_min'',
            ''episode_reward_max''} \<subseteq> fst ` set (scenario_frame [0, 0, 0] [1, 1, 1])"
    by (simp add: scenario_frame_def)
  have d: "draws_all x y = None" for x y by (simp add: draws_all_def)
  from scenario_one_image [of ?P scenario_world "[0, 0, 0]" "[1, 1, 1]" draws_all scenario_world
      "data_prefix @ ?P" "scenario_frame [0, 0, 0] [1, 1, 1]" draws_all] PO_paths(2) f f' c d
  have first: "(\<exists>w'. PlotAll draws_all scenario_world ?P = Returned w'
     \<and> saved (trace w') = [data_prefix @ ?P @ ''/all_fixed_time_ppo.png''])
   \<and> is_Returned (PlotbothRew_Inter draws_all scenario_world (data_prefix @ ?P))"
    by (simp add: t)
  have g: "files text_gap_world ((data_prefix @ ?P) @ ''/progress.csv'') = Some (Csv text_gap_frame)"
    by (simp add: text_gap_world_def log_file_def)
  have n: "draws_numbers (the (map_of text_gap_frame ''training_iteration''))
      (the (map_of text_gap_frame ''episode_reward_mean'')) \<noteq> None"
    by (simp add: text_gap_frame_def draws_numbers_def)
  from scenario_one_image [of ?P scenario_world "[0, 0, 0]" "[1, 1, 1]" draws_all text_gap_world
      "data_prefix @ ?P" text_gap_frame draws_numbers] g n
  have second: "\<not> is_Returned (PlotbothRew_Inter draws_numbers text_gap_world (data_prefix @ ?P))"
    by blast
  from first second show ?thesis by simp
qed

subsection \<open>Failures\<close>

text \<open>
  Claim C5. A failed read makes \<open>PlotAll\<close> raise the exception of the read, in the world
  of that one read: \<open>FileNotFoundError\<close> for a missing log, \<open>EmptyDataError\<close> for an empty
  one, \<open>UnicodeDecodeError\<close> for the bytes of an image, and the exception kept with any
  other content. A readable log that lacks a selected column makes it raise \<open>KeyError\<close> for
  the first such column of the block that selects it, in the world the blocks before have
  left: after the read alone for an episode column; for a column of the \<open>cav\<close> role after
  both functions saved the \<open>all_\<close> image; for a column of the \<open>tl\<close> role after the \<open>icv_\<close>
  image as well. An exception of \<open>plt.plot\<close> in the first block is raised in the world of
  the read, before any column of a later block is selected. Nothing catches an exception: when the directories before \<open>PATH\<close> were
  plotted and \<open>PlotAll\<close> raises on \<open>PATH\<close>, the loop over any list that continues after
  \<open>PATH\<close>, and so the script, ends with that exception in the world of the failure. The
  directories after \<open>PATH\<close> leave no trace and no read is repeated.
\<close>

theorem failure_ends_run:
  "(files w (log_file PATH) = None \<longrightarrow>
      PlotAll plt_plot w PATH =
        Raised (FileNotFoundError (log_file PATH))
          (w\<lparr>trace := trace w @ [ReadCsv (log_file PATH)]\<rparr>))
   \<and> (files w (log_file PATH) = Some Empty \<longrightarrow>
        PlotAll plt_plot w PATH =
          Raised (EmptyDataError (log_file PATH))
            (w\<lparr>trace := trace w @ [ReadCsv (log_file PATH)]\<rparr>))
   \<and> (files w (log_file PATH) = Some (Png fig) \<longrightarrow>
        PlotAll plt_plot w PATH =
          Raised (UnicodeDecodeError (log_file PATH))
            (w\<lparr>trace := trace w @ [ReadCsv (log_file PATH)]\<rparr>))
   \<and> (files w (log_file PATH) = Some (Unreadable e0) \<longrightarrow>
        PlotAll plt_plot w PATH =
          Raised e0 (w\<lparr>trace := trace w @ [ReadCsv (log_file PATH)]\<rparr>))
   \<and> (files w (log_file PATH) = Some (Csv df)
        \<and> first_missing df episode_columns = Some c \<longrightarrow>
        PlotAll plt_plot w PATH =
          Raised (KeyError c) (w\<lparr>trace := trace w @ [ReadCsv (log_file PATH)]\<rparr>))
   \<and> (files w (log_file PATH) = Some (Csv df) \<and> has_columns df episode_columns
        \<and> plot_error plt_plot df ''episode_reward_mean'' = Some e1 \<longrightarrow>
        PlotAll plt_plot w PATH =
          Raised e1 (w\<lparr>trace := trace w @ [ReadCsv (log_file PATH)]\<rparr>))
   \<and> (sublist ''PO'' (data_prefix @ PATH) \<and> files w (log_file PATH) = Some (Csv df)
        \<and> has_columns df episode_columns
        \<and> plot_error plt_plot df ''episode_reward_mean'' = None
        \<and> first_missing df cav_columns = Some c \<longrightarrow>
        PlotAll plt_plot w PATH =
          Raised (KeyError c)
            (after_block (after_read (after_block (after_read w PATH) df PATH
               ''episode_reward_mean'' ''reward'' ''all_'') PATH) df PATH
               ''episode_reward_mean'' ''reward'' ''all_''))
   \<and> (sublist ''PO'' (data_prefix @ PATH) \<and> files w (log_file PATH) = Some (Csv df)
        \<and> has_columns df episode_columns
        \<and> plot_error plt_plot df ''episode_reward_mean'' = None
        \<and> has_columns df cav_columns
        \<and> plot_error plt_plot df ''policy_reward_mean/cav'' = None
        \<and> first_missing df tl_columns = Some c \<longrightarrow>
        PlotAll plt_plot w PATH =
          Raised (KeyError c)
            (after_block
              (after_block (after_read (after_block (after_read w PATH) df PATH
                 ''episode_reward_mean'' ''reward'' ''all_'') PATH) df PATH
                 ''episode_reward_mean'' ''reward'' ''all_'')
              df PATH ''policy_reward_mean/cav'' ''icv_reward'' ''icv_''))
   \<and> (for_PATH_in plt_plot w0 ps = Returned w \<and> PlotAll plt_plot w PATH = Raised e w' \<longrightarrow>
        for_PATH_in plt_plot w0 (ps @ PATH # qs) = Raised e w')
   \<and> (PATHS = ps @ PATH # qs \<and> for_PATH_in plt_plot w0 ps = Returned w
        \<and> PlotAll plt_plot w PATH = Raised e w' \<longrightarrow>
        plot_reward_script plt_plot w0 = Raised e w')"
proof (intro conjI impI)
  assume "files w (log_file PATH) = None"
  then show "PlotAll plt_plot w PATH =
        Raised (FileNotFoundError (log_file PATH))
          (w\<lparr>trace := trace w @ [ReadCsv (log_file PATH)]\<rparr>)"
    using PlotAll_Raised_missing [of w PATH plt_plot] by (simp add: after_read_def)
next
  assume "files w (log_file PATH) = Some Empty"
  then show "PlotAll plt_plot w PATH =
          Raised (EmptyDataError (log_file PATH))
            (w\<lparr>trace := trace w @ [ReadCsv (log_file PATH)]\<rparr>)"
    using PlotAll_Raised_unreadable [of w PATH Empty "EmptyDataError (log_file PATH)" plt_plot]
    by (simp add: after_read_def read_error_def)
next
  assume "files w (log_file PATH) = Some (Png fig)"
  then show "PlotAll plt_plot w PATH =
          Raised (UnicodeDecodeError (log_file PATH))
            (w\<lparr>trace := trace w @ [ReadCsv (log_file PATH)]\<rparr>)"
    using PlotAll_Raised_unreadable [of w PATH "Png fig" "UnicodeDecodeError (log_file PATH)"
        plt_plot]
    by (simp add: after_read_def read_error_def)
next
  assume "files w (log_file PATH) = Some (Unreadable e0)"
  then show "PlotAll plt_plot w PATH =
          Raised e0 (w\<lparr>trace := trace w @ [ReadCsv (log_file PATH)]\<rparr>)"
    using PlotAll_Raised_unreadable [of w PATH "Unreadable e0" e0 plt_plot]
    by (simp add: after_read_def read_error_def)
next
  assume "files w (log_file PATH) = Some (Csv df) \<and> first_missing df episode_columns = Some c"
  then show "PlotAll plt_plot w PATH =
          Raised (KeyError c) (w\<lparr>trace := trace w @ [ReadCsv (log_file PATH)]\<rparr>)"
    using PlotAll_Raised_episode_column [of w PATH df c plt_plot] by (simp add: after_read_def)
next
  assume "files w (log_file PATH) = Some (Csv df) \<and> has_columns df episode_columns
        \<and> plot_error plt_plot df ''episode_reward_mean'' = Some e1"
  then show "PlotAll plt_plot w PATH =
          Raised e1 (w\<lparr>trace := trace w @ [ReadCsv (log_file PATH)]\<rparr>)"
    using PlotAll_Raised_episode_plot [of w PATH df plt_plot e1] by (simp add: after_read_def)
next
  assume "sublist ''PO'' (data_prefix @ PATH) \<and> files w (log_file PATH) = Some (Csv df)
        \<and> has_columns df episode_columns
        \<and> plot_error plt_plot df ''episode_reward_mean'' = None
        \<and> first_missing df cav_columns = Some c"
  then show "PlotAll plt_plot w PATH =
          Raised (KeyError c)
            (after_block (after_read (after_block (after_read w PATH) df PATH
               ''episode_reward_mean'' ''reward'' ''all_'') PATH) df PATH
               ''episode_reward_mean'' ''reward'' ''all_'')"
    using PlotAll_Raised_cav_column [of PATH w df plt_plot c] by blast
next
  assume "sublist ''PO'' (data_prefix @ PATH) \<and> files w (log_file PATH) = Some (Csv df)
        \<and> has_columns df episode_columns
        \<and> plot_error plt_plot df ''episode_reward_mean'' = None
        \<and> has_columns df cav_columns
        \<and> plot_error plt_plot df ''policy_reward_mean/cav'' = None
        \<and> first_missing df tl_columns = Some c"
  then show "PlotAll plt_plot w PATH =
          Raised (KeyError c)
            (after_block
              (after_block (after_read (after_block (after_read w PATH) df PATH
                 ''episode_reward_mean'' ''reward'' ''all_'') PATH) df PATH
                 ''episode_reward_mean'' ''reward'' ''all_'')
              df PATH ''policy_reward_mean/cav'' ''icv_reward'' ''icv_'')"
    using PlotAll_Raised_tl_column [of PATH w df plt_plot c] by blast
next
  assume "for_PATH_in plt_plot w0 ps = Returned w \<and> PlotAll plt_plot w PATH = Raised e w'"
  then show "for_PATH_in plt_plot w0 (ps @ PATH # qs) = Raised e w'"
    using for_PATH_in_Raised [of plt_plot w0 ps w PATH e w' qs] by blast
next
  assume "PATHS = ps @ PATH # qs \<and> for_PATH_in plt_plot w0 ps = Returned w
        \<and> PlotAll plt_plot w PATH = Raised e w'"
  then show "plot_reward_script plt_plot w0 = Raised e w'"
    using for_PATH_in_Raised [of plt_plot w0 ps w PATH e w' qs]
    by (simp add: plot_reward_script_def)
qed

theorem failure_ends_run_witness:
  "(\<exists>w'. plot_reward_script draws_all first_log_world =
            Raised (FileNotFoundError (log_file (''1*1'' @ luwang @ ''/fixedtime_cav''))) w'
         \<and> length (saved (trace w')) = 4)
   \<and> PlotAll draws_all
        (\<lparr>files = [log_file ''x'' \<mapsto> Csv [(''training_iteration'', [1])]], trace = []\<rparr>) ''x'' =
      Raised (KeyError ''episode_reward_max'')
        (\<lparr>files = [log_file ''x'' \<mapsto> Csv [(''training_iteration'', [1])]],
          trace = [ReadCsv (log_file ''x'')]\<rparr>)
   \<and> PlotAll draws_all (\<lparr>files = [log_file ''x'' \<mapsto> Empty], trace = []\<rparr>) ''x'' =
      Raised (EmptyDataError (log_file ''x''))
        (\<lparr>files = [log_file ''x'' \<mapsto> Empty], trace = [ReadCsv (log_file ''x'')]\<rparr>)
   \<and> (\<exists>w'. PlotAll draws_all
              (\<lparr>files = [log_file ''PO'' \<mapsto> Csv (scenario_frame [0, 0, 0] [1, 1, 1])],
                trace = []\<rparr>) ''PO'' =
            Raised (KeyError ''policy_reward_max/cav'') w'
         \<and> saved (trace w') = [image_file ''PO'' ''all_'', image_file ''PO'' ''all_''])
   \<and> PlotAll draws_numbers text_gap_world (''1*1'' @ luwang @ ''/RL_HV'') =
      Raised (TypeError ''plot'')
        (text_gap_world\<lparr>trace := [ReadCsv (log_file (''1*1'' @ luwang @ ''/RL_HV''))]\<rparr>)"
proof -
  let ?P0 = "''1*1'' @ luwang @ ''/Co_PPO''"
  let ?P1 = "''1*1'' @ luwang @ ''/fixedtime_cav''"
  let ?w0 = "first_log_world"
  have f0: "files ?w0 (log_file ?P0) = Some (Csv full_frame)"
    by (simp add: first_log_world_def)
  have cols: "has_columns full_frame episode_columns" "has_columns full_frame cav_columns"
    "has_columns full_frame tl_columns"
    using full_frame_has_columns [of ?P0] PO_paths(1) by (simp_all add: consumed_columns_split)
  have drawn: "plot_error draws_all df c = None" for df c
    by (simp add: plot_error_def draws_all_def)
  from PlotAll_Returned_multi [OF PO_paths(1) f0 cols drawn drawn drawn]
  obtain w1 where r0: "PlotAll draws_all ?w0 ?P0 = Returned w1"
    and t1: "trace w1 = trace ?w0 @ both_events ?P0 @ cav_light_events ?P0"
    by simp
  have loop0: "for_PATH_in draws_all ?w0 [?P0] = Returned w1"
    using r0 by (simp add: and_then_def)
  have "files w1 (log_file ?P1) = files ?w0 (log_file ?P1)"
    using frame_PlotAll [OF log_not_png, of draws_all ?w0 ?P0 ?P1] r0 by simp
  also have "\<dots> = None"
    by (simp add: first_log_world_def log_file_def)
  finally have f1: "files w1 (log_file ?P1) = None" .
  let ?w2 = "w1\<lparr>trace := trace w1 @ [ReadCsv (log_file ?P1)]\<rparr>"
  have decomp: "PATHS = [?P0] @ ?P1 # drop 2 PATHS"
    by (simp add: PATHS_def)
  note inst = failure_ends_run [where w = w1 and PATH = ?P1 and ?w0.0 = ?w0 and ps = "[?P0]"
      and e = "FileNotFoundError (log_file ?P1)" and w' = ?w2 and qs = "drop 2 PATHS"
      and plt_plot = draws_all]
  from inst f1 have r1: "PlotAll draws_all w1 ?P1 = Raised (FileNotFoundError (log_file ?P1)) ?w2"
    by blast
  from inst decomp loop0 r1
  have run: "plot_reward_script draws_all ?w0 = Raised (FileNotFoundError (log_file ?P1)) ?w2"
    by blast
  have "length (saved (trace ?w2)) = 4"
    by (simp add: t1 first_log_world_def both_events_def cav_light_events_def saved_append)
  with run have first: "\<exists>w'. plot_reward_script draws_all first_log_world =
            Raised (FileNotFoundError (log_file ?P1)) w' \<and> length (saved (trace w')) = 4"
    by blast
  let ?v = "\<lparr>files = [log_file ''x'' \<mapsto> Csv [(''training_iteration'', [1 :: rat])]],
             trace = []\<rparr>"
  have m: "first_missing [(''training_iteration'', [1 :: rat])] episode_columns =
      Some ''episode_reward_max''"
    by (simp add: episode_columns_def first_missing_def)
  have "files ?v (log_file ''x'') = Some (Csv [(''training_iteration'', [1 :: rat])])"
    by simp
  with failure_ends_run [where w = ?v and PATH = "''x''" and plt_plot = draws_all
      and df = "[(''training_iteration'', [1 :: rat])]" and c = "''episode_reward_max''"] m
  have second: "PlotAll draws_all ?v ''x'' = Raised (KeyError ''episode_reward_max'')
      (\<lparr>files = [log_file ''x'' \<mapsto> Csv [(''training_iteration'', [1])]],
        trace = [ReadCsv (log_file ''x'')]\<rparr>)"
    by simp
  let ?u = "\<lparr>files = [log_file ''x'' \<mapsto> (Empty :: rat stored)], trace = []\<rparr>"
  have "files ?u (log_file ''x'') = Some Empty" by simp
  with failure_ends_run [where w = ?u and PATH = "''x''" and plt_plot = draws_all]
  have third: "PlotAll draws_all ?u ''x'' = Raised (EmptyDataError (log_file ''x''))
      (\<lparr>files = [log_file ''x'' \<mapsto> Empty], trace = [ReadCsv (log_file ''x'')]\<rparr>)"
    by simp
  let ?df = "scenario_frame [0, 0, 0] [1, 1, 1]"
  let ?m = "\<lparr>files = [log_file ''PO'' \<mapsto> Csv ?df], trace = []\<rparr>"
  have po: "sublist ''PO'' (data_prefix @ ''PO'')" by (simp add: marker_test)
  have fm: "files ?m (log_file ''PO'') = Some (Csv ?df)" by simp
  have ec: "has_columns ?df episode_columns"
    by (simp add: has_columns_def first_missing_def scenario_frame_def episode_columns_def)
  have cm: "first_missing ?df cav_columns = Some ''policy_reward_max/cav''"
    by (simp add: first_missing_def scenario_frame_def cav_columns_def)
  from failure_ends_run [where w = ?m and PATH = "''PO''" and plt_plot = draws_all
      and df = ?df and c = "''policy_reward_max/cav''"] po fm ec cm drawn
  have "PlotAll draws_all ?m ''PO'' = Raised (KeyError ''policy_reward_max/cav'')
          (after_block (after_read (after_block (after_read ?m ''PO'') ?df ''PO''
               ''episode_reward_mean'' ''reward'' ''all_'') ''PO'') ?df ''PO''
               ''episode_reward_mean'' ''reward'' ''all_'')"
    by blast
  moreover have "saved (trace (after_block (after_read (after_block (after_read ?m ''PO'') ?df ''PO''
               ''episode_reward_mean'' ''reward'' ''all_'') ''PO'') ?df ''PO''
               ''episode_reward_mean'' ''reward'' ''all_'')) =
      [image_file ''PO'' ''all_'', image_file ''PO'' ''all_'']"
    by (simp add: after_block_def after_read_def)
  ultimately have fourth: "\<exists>w'. PlotAll draws_all ?m ''PO'' =
            Raised (KeyError ''policy_reward_max/cav'') w'
         \<and> saved (trace w') = [image_file ''PO'' ''all_'', image_file ''PO'' ''all_'']"
    by blast
  let ?B = "''1*1'' @ luwang @ ''/RL_HV''"
  have tf: "files text_gap_world (log_file ?B) = Some (Csv text_gap_frame)"
    by (simp add: text_gap_world_def)
  have tc: "has_columns text_gap_frame episode_columns"
    by (simp add: has_columns_def first_missing_def text_gap_frame_def episode_columns_def)
  have tp: "plot_error draws_numbers text_gap_frame ''episode_reward_mean'' =
      Some (TypeError ''plot'')"
    by (simp add: plot_error_def text_gap_frame_def draws_numbers_def)
  have tt: "trace text_gap_world = []" by (simp add: text_gap_world_def)
  from failure_ends_run [where w = text_gap_world and PATH = ?B and plt_plot = draws_numbers
      and df = text_gap_frame and ?e1.0 = "TypeError ''plot''"] tf tc tp
  have fifth: "PlotAll draws_numbers text_gap_world ?B =
      Raised (TypeError ''plot'') (text_gap_world\<lparr>trace := [ReadCsv (log_file ?B)]\<rparr>)"
    by (simp add: tt)
  show ?thesis
    by (rule conjI [OF first conjI [OF second conjI [OF third conjI [OF fourth fifth]]]])
qed

subsection \<open>The batch\<close>






subsection \<open>The multi-policy marker\<close>

text \<open>
  Claim C9. \<open>PlotAll\<close> looks for the two characters \<open>PO\<close> in the data path, the fixed prefix
  \<open>/home/g/software/pycharm/projects/flow-SEU/workplace/final/\<close> followed by the directory
  name. The prefix does not contain \<open>PO\<close>, so the data path contains it exactly when the
  directory name does. The test is case-sensitive: a name that contains \<open>po\<close> but not \<open>PO\<close>
  is plotted by \<open>PlotbothRew_Inter\<close> alone.
\<close>

theorem marker_is_PO_on_data_path:
  "PlotAll plt_plot w PATH =
     (if sublist ''PO'' (''/home/g/software/pycharm/projects/flow-SEU/workplace/final/'' @ PATH)
      then and_then (PlotbothRew_Inter plt_plot w (data_prefix @ PATH))
             (\<lambda>w1. PlotCav_LigthtRew_Inter plt_plot w1 (data_prefix @ PATH))
      else PlotbothRew_Inter plt_plot w (data_prefix @ PATH))
   \<and> \<not> sublist ''PO'' data_prefix
   \<and> (sublist ''PO'' (data_prefix @ PATH) \<longleftrightarrow> sublist ''PO'' PATH)
   \<and> (sublist ''po'' PATH \<and> \<not> sublist ''PO'' PATH \<longrightarrow>
        PlotAll plt_plot w PATH = PlotbothRew_Inter plt_plot w (data_prefix @ PATH))"
proof (intro conjI impI)
  show "PlotAll plt_plot w PATH =
     (if sublist ''PO'' (''/home/g/software/pycharm/projects/flow-SEU/workplace/final/'' @ PATH)
      then and_then (PlotbothRew_Inter plt_plot w (data_prefix @ PATH))
             (\<lambda>w1. PlotCav_LigthtRew_Inter plt_plot w1 (data_prefix @ PATH))
      else PlotbothRew_Inter plt_plot w (data_prefix @ PATH))"
    by (simp add: PlotAll_def Let_def data_prefix_def)
  show "\<not> sublist ''PO'' data_prefix" by (rule no_PO_in_prefix)
  show "sublist ''PO'' (data_prefix @ PATH) \<longleftrightarrow> sublist ''PO'' PATH" by (rule marker_test)
next
  assume "sublist ''po'' PATH \<and> \<not> sublist ''PO'' PATH"
  then have "\<not> sublist ''PO'' (data_prefix @ PATH)" by (simp add: marker_test)
  then show "PlotAll plt_plot w PATH = PlotbothRew_Inter plt_plot w (data_prefix @ PATH)"
    by (simp add: PlotAll_def Let_def)
qed

theorem marker_is_PO_on_data_path_witness:
  "sublist ''po'' ''1*1/Co_ppo'' \<and> \<not> sublist ''PO'' ''1*1/Co_ppo''
   \<and> PlotAll draws_all empty_world ''1*1/Co_ppo'' =
       PlotbothRew_Inter draws_all empty_world (data_prefix @ ''1*1/Co_ppo'')
   \<and> sublist ''PO'' (data_prefix @ ''1*1/Co_PPO'')"
proof -
  have a: "sublist ''po'' ''1*1/Co_ppo'' \<and> \<not> sublist ''PO'' ''1*1/Co_ppo''"
    by (simp add: sublist_Cons_right)
  have b: "sublist ''PO'' ''1*1/Co_PPO''"
    by (simp add: sublist_Cons_right)
  from marker_is_PO_on_data_path [of draws_all empty_world "''1*1/Co_ppo''"] a
    marker_is_PO_on_data_path [of draws_all empty_world "''1*1/Co_PPO''"] b
  show ?thesis by blast
qed

subsection \<open>Saves of a multi-policy directory\<close>

text \<open>
  Claim C10. For a directory whose data path contains the marker, whose log holds the
  selected columns and whose three blocks \<open>plt.plot\<close> draws, \<open>PlotbothRew_Inter\<close> saves
  \<open>all_fixed_time_ppo.png\<close> and then \<open>PlotCav_LigthtRew_Inter\<close> saves the same path again,
  followed by the \<open>icv_\<close> and the \<open>tl_\<close> image. \<open>PlotAll\<close> thus performs four saves on three
  distinct paths: the \<open>all_\<close> path twice, the other two once each; the \<open>all_\<close> file holds
  the episode-reward figure after the first save and after the second.
\<close>

theorem all_image_saved_twice:
  assumes "sublist ''PO'' (data_prefix @ PATH)"
    and "files w (log_file PATH) = Some (Csv df)"
    and "has_columns df (consumed_columns PATH)"
    and "plots_drawn plt_plot df PATH"
  shows "\<exists>w1 w'.
     PlotbothRew_Inter plt_plot w (data_prefix @ PATH) = Returned w1
     \<and> PlotCav_LigthtRew_Inter plt_plot w1 (data_prefix @ PATH) = Returned w'
     \<and> PlotAll plt_plot w PATH = Returned w'
     \<and> saved (new_events w w1) = [data_prefix @ PATH @ ''/all_fixed_time_ppo.png'']
     \<and> saved (new_events w1 w') =
         [data_prefix @ PATH @ ''/all_fixed_time_ppo.png'',
          data_prefix @ PATH @ ''/icv_fixed_time_ppo.png'',
          data_prefix @ PATH @ ''/tl_fixed_time_ppo.png'']
     \<and> saved (new_events w w') =
         [data_prefix @ PATH @ ''/all_fixed_time_ppo.png'',
          data_prefix @ PATH @ ''/all_fixed_time_ppo.png'',
          data_prefix @ PATH @ ''/icv_fixed_time_ppo.png'',
          data_prefix @ PATH @ ''/tl_fixed_time_ppo.png'']
     \<and> length (saved (new_events w w')) = 4
     \<and> card (set (saved (new_events w w'))) = 3
     \<and> count_list (saved (new_events w w')) (data_prefix @ PATH @ ''/all_fixed_time_ppo.png'') = 2
     \<and> count_list (saved (new_events w w')) (data_prefix @ PATH @ ''/icv_fixed_time_ppo.png'') = 1
     \<and> count_list (saved (new_events w w')) (data_prefix @ PATH @ ''/tl_fixed_time_ppo.png'') = 1
     \<and> files w1 (data_prefix @ PATH @ ''/all_fixed_time_ppo.png'') =
         Some (Png (reward_figure df ''episode_reward_mean'' ''reward''))
     \<and> files w' (data_prefix @ PATH @ ''/all_fixed_time_ppo.png'') =
         Some (Png (reward_figure df ''episode_reward_mean'' ''reward''))"
proof -
  let ?P = "data_prefix @ PATH"
  let ?all = "?P @ ''/all_fixed_time_ppo.png''"
  let ?icv = "?P @ ''/icv_fixed_time_ppo.png''"
  let ?tl = "?P @ ''/tl_fixed_time_ppo.png''"
  let ?log = "?P @ ''/progress.csv''"
  from assms have cols: "has_columns df episode_columns" "has_columns df cav_columns"
    "has_columns df tl_columns"
    by (simp_all add: consumed_columns_split)
  from assms(1,4) have drawn: "plot_error plt_plot df ''episode_reward_mean'' = None"
    "plot_error plt_plot df ''policy_reward_mean/cav'' = None"
    "plot_error plt_plot df ''policy_reward_mean/tl'' = None"
    by (simp_all add: plots_drawn_def)
  have log: "files w ?log = Some (Csv df)" using assms(2) by (simp add: log_file_def)
  let ?w1 = "w\<lparr>files := (files w)(?all \<mapsto> Png (reward_figure df ''episode_reward_mean'' ''reward'')),
                trace := trace w @ [ReadCsv ?log, Show, SaveFig ?all]\<rparr>"
  have b: "PlotbothRew_Inter plt_plot w ?P = Returned ?w1"
    using log cols(1) drawn(1) by (rule Both_Returned)
  have log1: "files ?w1 ?log = Some (Csv df)" using log by simp
  let ?w2 = "?w1\<lparr>files := (files ?w1)
                  (?all \<mapsto> Png (reward_figure df ''episode_reward_mean'' ''reward''),
                   ?icv \<mapsto> Png (reward_figure df ''policy_reward_mean/cav'' ''icv_reward''),
                   ?tl \<mapsto> Png (reward_figure df ''policy_reward_mean/tl'' ''tl_reward'')),
                trace := trace ?w1 @ [ReadCsv ?log, Show, SaveFig ?all, Show, SaveFig ?icv,
                   Show, SaveFig ?tl]\<rparr>"
  have c: "PlotCav_LigthtRew_Inter plt_plot ?w1 ?P = Returned ?w2"
    using log1 cols drawn by (rule Cav_Returned)
  have a: "PlotAll plt_plot w PATH = Returned ?w2"
    using assms(1) b c by (simp add: PlotAll_def Let_def and_then_def)
  have e1: "new_events w ?w1 = [ReadCsv ?log, Show, SaveFig ?all]"
    by (simp add: new_events_def)
  have e2: "new_events ?w1 ?w2 = [ReadCsv ?log, Show, SaveFig ?all, Show, SaveFig ?icv,
                   Show, SaveFig ?tl]"
    by (simp add: new_events_def)
  have e: "new_events w ?w2 = [ReadCsv ?log, Show, SaveFig ?all, ReadCsv ?log, Show,
      SaveFig ?all, Show, SaveFig ?icv, Show, SaveFig ?tl]"
    by (simp add: new_events_def)
  have d: "?all \<noteq> ?icv" "?all \<noteq> ?tl" "?icv \<noteq> ?tl" by simp_all
  have f1: "files ?w1 ?all = Some (Png (reward_figure df ''episode_reward_mean'' ''reward''))"
    by simp
  have f2: "files ?w2 ?all = Some (Png (reward_figure df ''episode_reward_mean'' ''reward''))"
    by simp
  have s1: "saved (new_events w ?w1) = [?all]" by (simp only: e1 saved.simps)
  have s2: "saved (new_events ?w1 ?w2) = [?all, ?icv, ?tl]" by (simp only: e2 saved.simps)
  have s: "saved (new_events w ?w2) = [?all, ?all, ?icv, ?tl]" by (simp only: e saved.simps)
  have n: "length (saved (new_events w ?w2)) = 4" by (simp only: s) simp
  have k: "card (set (saved (new_events w ?w2))) = 3" by (simp only: s) simp
  have c1: "count_list (saved (new_events w ?w2)) ?all = 2" by (simp only: s) simp
  have c2: "count_list (saved (new_events w ?w2)) ?icv = 1" by (simp only: s) simp
  have c3: "count_list (saved (new_events w ?w2)) ?tl = 1" by (simp only: s) simp
  show ?thesis
    apply (rule exI [of _ ?w1])
    apply (rule exI [of _ ?w2])
    using b c a s1 s2 s n k c1 c2 c3 f1 f2
    apply (simp only: append_assoc)
    done
qed

theorem all_image_saved_twice_witness:
  "\<exists>w'. PlotAll draws_all all_logs_world (''3*4'' @ luwang @ ''/In_PPO'') = Returned w'
     \<and> length (saved (trace w')) = 4
     \<and> card (set (saved (trace w'))) = 3
     \<and> count_list (saved (trace w'))
          (data_prefix @ (''3*4'' @ luwang @ ''/In_PPO'') @ ''/all_fixed_time_ppo.png'') = 2"
proof -
  let ?P = "''3*4'' @ luwang @ ''/In_PPO''"
  have po: "sublist ''PO'' (data_prefix @ ?P)"
    unfolding marker_test by (simp add: luwang_def sublist_Cons_right)
  have f: "files all_logs_world (log_file ?P) = Some (Csv full_frame)"
    by (simp add: all_logs_world_def log_is_csv)
  have t: "new_events all_logs_world w' = trace w'" for w' :: "rat world"
    by (simp add: new_events_def all_logs_world_def)
  from all_image_saved_twice [OF po f full_frame_has_columns draws_all_drawn]
  show ?thesis unfolding t by blast
qed

end
